theory Spec2Isabelle
  imports Main "HOL-Library.AList"
begin

section \<open>Python values, dictionaries and exceptions\<close>

text \<open>
  The consumer of \<^verbatim>\<open>src/simple_consumer/consumer.py\<close> moves JSON-like values around.
  \<open>ResponsePayload.X(...)\<close> objects (declared in \<^verbatim>\<open>signatures.py\<close>) are kept as the
  constructors of \<open>response_payload\<close>; \<open>PResponse r\<close> stands for the mapping that
  \<open>ResponsePayload.r.serialize()\<close> returns.
\<close>

datatype response_payload =
    ActionNotExist
  | PayloadSignatureWrong string
  | ActionSignatureWrong string
  | RecipientNotExist
  | ChannelLayerDisabled

datatype pyval =
    PNone
  | PBool bool
  | PInt int
  | PStr string
  | PList "pyval list"
  | PDict "(string \<times> pyval) list"
  | PResponse response_payload

text \<open>A Python dict: an association list in insertion order, keys distinct.\<close>

type_synonym dict = "(string \<times> pyval) list"

fun truthy :: "pyval \<Rightarrow> bool" where
  "truthy PNone = False"
| "truthy (PBool b) = b"
| "truthy (PInt i) = (i \<noteq> 0)"
| "truthy (PStr s) = (s \<noteq> [])"
| "truthy (PList xs) = (xs \<noteq> [])"
| "truthy (PDict d) = (d \<noteq> [])"
| "truthy (PResponse r) = True"

text \<open>The exceptions the modelled code can raise or let through.\<close>

datatype exn =
    TypeError string
  | KeyError string
  | IndexError
  | AttributeError
  | ValueError
  | OtherError string

definition has_key :: "string \<Rightarrow> (string \<times> 'v) list \<Rightarrow> bool" where
  "has_key k d = (map_of d k \<noteq> None)"

definition dict_pop :: "string \<Rightarrow> (string \<times> 'v) list \<Rightarrow> (string \<times> 'v) list" where
  "dict_pop k d = AList.delete k d"

definition dict_update :: "(string \<times> 'v) list \<Rightarrow> (string \<times> 'v) list \<Rightarrow> (string \<times> 'v) list" where
  "dict_update d upd = fold (\<lambda>(k, v) acc. AList.update k v acc) upd d"

section \<open>Python string operations used by the consumer\<close>

text \<open>\<open>startswith s p\<close> is \<open>s.startswith(p)\<close>; \<open>py_in sub s\<close> is \<open>sub in s\<close>.\<close>

fun startswith :: "string \<Rightarrow> string \<Rightarrow> bool" where
  "startswith s [] = True"
| "startswith [] (p # ps) = False"
| "startswith (c # cs) (p # ps) = (c = p \<and> startswith cs ps)"

fun py_in :: "string \<Rightarrow> string \<Rightarrow> bool" where
  "py_in sub [] = (sub = [])"
| "py_in sub (c # cs) = (startswith (c # cs) sub \<or> py_in sub cs)"

text \<open>
  \<open>s.split(sep)\<close> for a non-empty separator: a left-to-right scan for non-overlapping
  occurrences; \<open>cur\<close> is the current piece, reversed.
\<close>

fun split_from :: "string \<Rightarrow> string \<Rightarrow> string \<Rightarrow> string list" where
  "split_from sep cur [] = [rev cur]"
| "split_from sep cur (c # cs) =
     (if sep \<noteq> [] \<and> startswith (c # cs) sep
      then rev cur # split_from sep [] (drop (length sep - 1) cs)
      else split_from sep (c # cur) cs)"

definition py_split :: "string \<Rightarrow> string \<Rightarrow> string list" where
  "py_split sep s = split_from sep [] s"

text \<open>\<open>xs[1]\<close>, which raises IndexError on a list shorter than two.\<close>

fun index1 :: "'a list \<Rightarrow> exn + 'a" where
  "index1 (x # y # ys) = Inr y"
| "index1 xs = Inl IndexError"

text \<open>
  \<open>s.strip()\<close> removes the characters of \<open>str.isspace\<close> from both ends. A \<open>char\<close> is read as
  a code point below 256; of the white space of Python those are the ASCII blanks and
  separators, U+0085 and U+00A0.
\<close>

definition is_space :: "char \<Rightarrow> bool" where
  "is_space c = (c \<in> set [CHR 0x20, CHR 0x09, CHR 0x0A, CHR 0x0B, CHR 0x0C, CHR 0x0D,
                           CHR 0x1C, CHR 0x1D, CHR 0x1E, CHR 0x1F, CHR 0x85, CHR 0xA0])"

definition strip :: "string \<Rightarrow> string" where
  "strip s = rev (dropWhile is_space (rev (dropWhile is_space s)))"

text \<open>\<open>s.replace("'", '')\<close>.\<close>

definition remove_quotes :: "string \<Rightarrow> string" where
  "remove_quotes s = filter (\<lambda>c. c \<noteq> CHR 0x27) s"

text \<open>
  Modelled from the spec: \<open>camel_to_snake\<close> and \<open>camel_to_dot\<close> live in \<^verbatim>\<open>utils.py\<close>, which is
  not among the sources. The spec says that a handler's declared (camel-case) name is
  converted to the wire-level separated identifier: every upper-case letter starts a new
  lower-case word.
\<close>

definition to_lower :: "char \<Rightarrow> char" where
  "to_lower c = (case map_of (zip ''ABCDEFGHIJKLMNOPQRSTUVWXYZ'' ''abcdefghijklmnopqrstuvwxyz'') c of
                   Some l \<Rightarrow> l | None \<Rightarrow> c)"

definition is_upper :: "char \<Rightarrow> bool" where
  "is_upper c = (c \<in> set ''ABCDEFGHIJKLMNOPQRSTUVWXYZ'')"

fun camel_words :: "char \<Rightarrow> bool \<Rightarrow> string \<Rightarrow> string" where
  "camel_words sep first [] = []"
| "camel_words sep first (c # cs) =
     (if is_upper c then (if first then [] else [sep]) @ to_lower c # camel_words sep False cs
      else c # camel_words sep False cs)"

definition camel_to_snake :: "string \<Rightarrow> string" where
  "camel_to_snake n = camel_words (CHR ''_'') True n"

definition camel_to_dot :: "string \<Rightarrow> string" where
  "camel_to_dot n = camel_words (CHR ''.'') True n"

section \<open>The envelope model\<close>

datatype user = AnonymousUser | User nat

fun user_id :: "user \<Rightarrow> nat option" where
  "user_id AnonymousUser = None"
| "user_id (User i) = Some i"

text \<open>
  \<open>EventSystem\<close>, \<open>MessageSystem\<close>, \<open>Event\<close>, \<open>Payload\<close> and \<open>Message\<close> are declared in
  \<^verbatim>\<open>signatures.py\<close>, which is not among the sources; their fields are the keyword arguments
  \<^verbatim>\<open>consumer.py\<close> constructs them with. \<open>event_id\<close> is \<open>str(uuid.uuid4())\<close>: the model
  numbers the identifiers drawn.
\<close>

record event_system =
  initiator_channel :: string
  initiator_user_id :: "nat option"
  event_id :: nat

record message_system = event_system +
  receiver_channel :: string

datatype payload = Payload dict | ResponsePayload response_payload

fun payload_serialize :: "payload \<Rightarrow> pyval" where
  "payload_serialize (Payload d) = PDict d"
| "payload_serialize (ResponsePayload r) = PResponse r"

text \<open>An argument annotated \<open>[Payload, dict]\<close>: a payload object or a plain mapping.\<close>

datatype payload_arg = PayloadObj payload | PayloadDict dict

fun arg_truthy :: "payload_arg \<Rightarrow> bool" where
  "arg_truthy (PayloadObj p) = True"
| "arg_truthy (PayloadDict d) = (d \<noteq> [])"

text \<open>\<open>payload.serialize() if isinstance(payload, Payload) else payload\<close>\<close>

fun payload_value :: "payload_arg \<Rightarrow> pyval" where
  "payload_value (PayloadObj p) = payload_serialize p"
| "payload_value (PayloadDict d) = PDict d"

record event =
  ev_name :: pyval
  ev_system :: event_system
  ev_payload :: pyval

text \<open>
  The message a connection hands to the channel layer and gets back from it: the keys
  \<open>type\<close>, \<open>payload\<close> and \<open>system\<close> that \<open>parse_content\<close> writes and that \<open>return_event\<close>,
  \<open>parse_payload\<close> and \<open>parse_message\<close> read.
\<close>

record content =
  ctype :: pyval
  cpayload :: pyval
  csystem :: event_system

text \<open>
  Modelled from the spec: \<open>EventSystem.serialize\<close>, \<open>Event.serialize\<close> and
  \<open>Event.to_channels\<close> are in \<^verbatim>\<open>signatures.py\<close>. The spec gives the outbound frame the
  envelope shape \<open>{event, payload, system}\<close> and says the group publish carries the full
  envelope with its system metadata.
\<close>

definition EventSystem_serialize :: "event_system \<Rightarrow> dict" where
  "EventSystem_serialize s =
     [(''initiator_channel'', PStr (initiator_channel s)),
      (''initiator_user_id'', (case initiator_user_id s of None \<Rightarrow> PNone | Some i \<Rightarrow> PInt (int i))),
      (''event_id'', PInt (int (event_id s)))]"

definition Event_serialize :: "event \<Rightarrow> dict" where
  "Event_serialize e =
     [(''event'', ev_name e), (''payload'', ev_payload e),
      (''system'', PDict (EventSystem_serialize (ev_system e)))]"

definition to_channels :: "event \<Rightarrow> content" where
  "to_channels e = \<lparr>ctype = ev_name e, cpayload = ev_payload e, csystem = ev_system e\<rparr>"

text \<open>
  \<open>channels.consumer.get_handler_name\<close>: dots of the message type become underscores; a
  leading underscore is a ValueError. A type that is not a string has no \<open>replace\<close>.
\<close>

definition get_handler_name :: "content \<Rightarrow> exn + string" where
  "get_handler_name m =
     (case ctype m of
        PStr t \<Rightarrow>
          (let handler_name = map (\<lambda>c. if c = CHR ''.'' then CHR ''_'' else c) t
           in if startswith handler_name ''_'' then Inl ValueError else Inr handler_name)
      | _ \<Rightarrow> Inl AttributeError)"

section \<open>The world a connection acts on\<close>

text \<open>
  What \<open>getattr(self, name, None)\<close> can find on a consumer: an event class (a subclass of
  \<open>SimpleEvent\<close>, with its class name and its \<open>hidden\<close> flag), another class (with its
  name), a bound method, or a data attribute. \<open>attributes\<close> lists them by attribute name
  in the order of \<open>dir(self)\<close>.
\<close>

datatype attr = EventClass string bool | OtherClass string | Method | Data pyval

text \<open>
  A connection. \<^verbatim>\<open>consumer.py\<close> never assigns \<open>channel_name\<close>: the framework it inherits from
  sets \<open>self.channel_layer\<close> on every connection and \<open>self.channel_name\<close> only when that
  layer is not \<open>None\<close>. So \<open>channel_name\<close> is \<open>Some\<close> name on a connection with a channel
  layer and \<open>None\<close> on one without, where reading the attribute raises AttributeError.
\<close>

record consumer =
  class_name :: string
  channel_name :: "string option"
  broadcast_group :: "string option"
  scope_user :: user
  attributes :: "(string \<times> attr) list"
  custom_target_resolver :: "(string \<times> (pyval \<times> user) list) list"

text \<open>\<open>self.channel_layer\<close> as a truth value, and the read of \<open>self.channel_name\<close>.\<close>

definition channel_layer :: "consumer \<Rightarrow> bool" where
  "channel_layer c = (channel_name c \<noteq> None)"

definition self_channel_name :: "consumer \<Rightarrow> exn + string" where
  "self_channel_name c = (case channel_name c of Some n \<Rightarrow> Inr n | None \<Rightarrow> Inl AttributeError)"

definition getattr :: "consumer \<Rightarrow> string \<Rightarrow> attr option" where
  "getattr c n = map_of (attributes c) n"

text \<open>
  What a pass does to the outside is recorded in order: a frame handed to the transport
  (\<open>super().send_json\<close>), a publish to a group (\<open>channel_layer.group_send\<close>), a \<open>print\<close>, the
  call of a hook, and the calls of \<open>message.before_activate()\<close> and
  \<open>message.before_drop()\<close>. The world also holds the number of identifiers drawn from
  \<open>uuid.uuid4()\<close>, the module-level \<open>TargetResolver\<close> table, which \<open>parse_message\<close>
  updates in place, and the class attribute \<open>consumer\<close> of the classes that
  \<open>receive_json\<close> has written it on, by class name (a class it is not listed for has the
  attribute \<open>None\<close> of \<open>SimpleEvent\<close>). A resolver \<open>(value) -> user-or-null\<close> is given by
  its table of values and users.
\<close>

datatype hook_id = DoBefore | DoForInitiator | DoForTarget

datatype action =
    Transmit dict
  | GroupSend string content
  | Print string
  | Invoke hook_id
  | BeforeActivate
  | BeforeDrop

record world =
  trace :: "action list"
  uuid_next :: nat
  TargetResolver :: "(string \<times> (pyval \<times> user) list) list"
  class_consumer :: "(string \<times> consumer) list"

definition emit :: "action \<Rightarrow> world \<Rightarrow> world" where
  "emit a w = w\<lparr>trace := trace w @ [a]\<rparr>"

text \<open>
  \<open>SimpleConsumer.get_systems\<close> (lines 172-177). The keyword arguments are evaluated in
  order: \<open>self.channel_name\<close> is read before the identifier is drawn.
\<close>

definition get_systems :: "consumer \<Rightarrow> world \<Rightarrow> (exn + event_system) \<times> world" where
  "get_systems c w =
     (case self_channel_name c of
        Inl x \<Rightarrow> (Inl x, w)
      | Inr n \<Rightarrow>
          (Inr \<lparr>initiator_channel = n, initiator_user_id = user_id (scope_user c),
                event_id = uuid_next w\<rparr>,
           w\<lparr>uuid_next := Suc (uuid_next w)\<rparr>))"

text \<open>\<open>SimpleConsumer.send_json\<close> (lines 152-155).\<close>

definition send_json :: "dict \<Rightarrow> world \<Rightarrow> world" where
  "send_json content w =
     emit (Transmit (if has_key ''system'' content then dict_pop ''system'' content else content)) w"

section \<open>SimpleEvent\<close>

text \<open>
  An event class (a subclass of \<open>SimpleEvent\<close>) with the class attributes that
  \<open>__init__\<close> and \<open>parse_content\<close> read, and an instance with the attributes they set. The
  class attribute \<open>consumer\<close> is in the world.
\<close>

record event_class =
  cls_name :: string
  cls_hidden :: bool

record simple_event =
  se_consumer :: consumer
  se_hidden :: bool
  se_payload :: payload_arg
  se_content :: content

text \<open>\<open>SimpleConsumer.Error\<close> (lines 308-311): a hidden event class.\<close>

definition Error_cls :: event_class where
  "Error_cls = \<lparr>cls_name = ''Error'', cls_hidden = True\<rparr>"

text \<open>
  \<open>SimpleEvent.parse_content\<close> (lines 103-116). The result is the value of \<open>self.hidden\<close>
  after the call and the content returned. \<open>None\<close> stands for a content that is not
  truthy (\<open>None\<close> or an empty mapping). The synthesized content calls \<open>get_systems\<close>, which
  raises on a connection without a channel name.
\<close>

definition parse_content ::
  "event_class \<Rightarrow> consumer \<Rightarrow> content option \<Rightarrow> payload_arg \<Rightarrow> world
     \<Rightarrow> (exn + bool \<times> content) \<times> world" where
  "parse_content cls c given payload w =
     (case given of
        Some ct \<Rightarrow> (Inr (cls_hidden cls, ct), w)
      | None \<Rightarrow>
          (case get_systems c w of
             (Inl x, w1) \<Rightarrow> (Inl x, w1)
           | (Inr sys, w1) \<Rightarrow>
               (Inr (False, \<lparr>ctype = PStr (camel_to_dot (cls_name cls)),
                             cpayload = payload_value payload,
                             csystem = sys\<rparr>), w1)))"

text \<open>
  \<open>SimpleEvent.return_event\<close> (lines 81-84) and \<open>SimpleEvent.fire\<close> (lines 96-97).
  \<open>return_event\<close> pops \<open>type\<close> and \<open>system\<close> off the instance's content; the instance is
  not used again after it is fired, and the model leaves it as it was.
\<close>

definition return_event :: "simple_event \<Rightarrow> payload_arg option \<Rightarrow> event" where
  "return_event e payload =
     (let p = (case payload of
                 Some p \<Rightarrow> if arg_truthy p then p else se_payload e
               | None \<Rightarrow> se_payload e)
      in \<lparr>ev_name = ctype (se_content e), ev_system = csystem (se_content e),
          ev_payload = payload_value p\<rparr>)"

definition fire :: "simple_event \<Rightarrow> payload_arg option \<Rightarrow> world \<Rightarrow> world" where
  "fire e payload w = send_json (Event_serialize (return_event e payload)) w"

text \<open>
  \<open>SimpleEvent.__init__\<close> (lines 66-79). The result is \<open>None\<close> when no consumer is at hand
  (the instance then has neither payload nor content, and firing it raises
  AttributeError). A hidden event answers with
  \<open>Error(payload=ResponsePayload.ActionNotExist(), consumer=...).fire()\<close>, which constructs
  an \<open>Error\<close> event in turn.
\<close>

function SimpleEvent_init ::
  "event_class \<Rightarrow> consumer option \<Rightarrow> content option \<Rightarrow> payload_arg option \<Rightarrow> world
     \<Rightarrow> (exn + simple_event option) \<times> world" where
  "SimpleEvent_init cls consumer given payload w =
     (case (case consumer of
              Some c \<Rightarrow> Some c
            | None \<Rightarrow> map_of (class_consumer w) (cls_name cls)) of
        None \<Rightarrow> (Inr None, emit (Print ''Provide consumer instance for direct call event'') w)
      | Some c \<Rightarrow>
          (let p = (case payload of
                      Some p \<Rightarrow> if arg_truthy p then p else PayloadObj (Payload [])
                    | None \<Rightarrow> PayloadObj (Payload []))
           in (case parse_content cls c given p w of
                 (Inl x, w1) \<Rightarrow> (Inl x, w1)
               | (Inr hc, w1) \<Rightarrow>
                   (let inst = \<lparr>se_consumer = c, se_hidden = fst hc, se_payload = p,
                                se_content = snd hc\<rparr>
                    in if fst hc
                       then (case SimpleEvent_init Error_cls (Some c) None
                                    (Some (PayloadObj (ResponsePayload ActionNotExist))) w1 of
                               (Inl x, w2) \<Rightarrow> (Inl x, w2)
                             | (Inr (Some e), w2) \<Rightarrow> (Inr (Some inst), fire e None w2)
                             | (Inr None, w2) \<Rightarrow> (Inl AttributeError, w2))
                       else (Inr (Some inst), w1)))))"
  by pat_completeness auto
termination
  by (relation "measure (\<lambda>(cls, consumer, given, payload, w). if given = None then 0 else 1)")
     (auto simp: parse_content_def Let_def split: option.splits sum.splits prod.splits)

declare SimpleEvent_init.simps [simp del]

text \<open>\<open>self.Error(payload=ResponsePayload.X(...), consumer=self).fire()\<close>\<close>

definition fire_error :: "consumer \<Rightarrow> response_payload \<Rightarrow> world \<Rightarrow> (exn + unit) \<times> world" where
  "fire_error c rp w =
     (case SimpleEvent_init Error_cls (Some c) None (Some (PayloadObj (ResponsePayload rp))) w of
        (Inl x, w1) \<Rightarrow> (Inl x, w1)
      | (Inr (Some e), w1) \<Rightarrow> (Inr (), fire e None w1)
      | (Inr None, w1) \<Rightarrow> (Inl AttributeError, w1))"

section \<open>The signature validator\<close>

text \<open>
  \<open>SimpleConsumer.check_signature\<close> (lines 223-237). The argument is the outcome of the
  call \<open>f()\<close>: a value, or the exception raised. Only a \<open>TypeError\<close> is caught; the message
  \<open>str(e)\<close> is searched for the two words and cut at \<open>argument\<close>. An exception raised
  inside the handler (the \<open>IndexError\<close> of \<open>[1]\<close>, or what firing the error event raises)
  leaves the function.
\<close>

definition check_signature ::
  "consumer \<Rightarrow> exn + 'a \<Rightarrow> world \<Rightarrow> (exn + 'a option \<times> bool) \<times> world" where
  "check_signature c f w =
     (case f of
        Inr data \<Rightarrow> (Inr (Some data, False), w)
      | Inl (TypeError e) \<Rightarrow>
          (case (if py_in '' missing '' e
                 then (case index1 (py_split ''argument: '' e) of
                         Inl x \<Rightarrow> (Inl x, w)
                       | Inr piece \<Rightarrow>
                           (case fire_error c (PayloadSignatureWrong (remove_quotes (strip piece))) w of
                              (Inl x, w1) \<Rightarrow> (Inl x, w1)
                            | (Inr u, w1) \<Rightarrow> (Inr True, w1)))
                 else (Inr False, w)) of
             (Inl x, w1) \<Rightarrow> (Inl x, w1)
           | (Inr error1, w1) \<Rightarrow>
               (if py_in '' unexpected '' e
                then (case index1 (py_split ''argument'' e) of
                        Inl x \<Rightarrow> (Inl x, w1)
                      | Inr piece \<Rightarrow>
                          (case fire_error c (ActionSignatureWrong (remove_quotes (strip piece))) w1 of
                             (Inl x, w2) \<Rightarrow> (Inl x, w2)
                           | (Inr u, w2) \<Rightarrow> (Inr (None, True), w2)))
                else (Inr (None, error1), w1)))
      | Inl x \<Rightarrow> (Inl x, w))"

section \<open>The routing engine\<close>

datatype TargetsEnum = for_all | for_user

text \<open>
  Modelled from the spec: the class \<open>Message\<close> (with \<open>is_initiator\<close>, \<open>is_target\<close>,
  \<open>target_user\<close>, \<open>before_activated\<close>, \<open>before_activate\<close> and \<open>before_drop\<close>), \<open>LookupUser\<close> and
  the resolution of the target user are in \<^verbatim>\<open>signatures.py\<close>. The spec (3, 4.3, 4.4): a
  routing message is created fresh for each evaluation with a single-use before-activated
  flag; a role that runs the before hook marks the flag, a later role clears it; the
  local user is the initiator when it equals the event's initiator by identity, and a
  target when the target class is broadcast-to-all or it equals the resolved target; the
  target is the first non-null result of the resolvers of the populated lookup fields.
\<close>

record message =
  msg_payload :: "payload option"
  msg_system :: message_system
  msg_user :: user
  msg_target :: TargetsEnum
  msg_lookup :: "(string \<times> pyval) list"
  msg_target_user :: "user option"
  before_activated :: bool

definition is_initiator :: "message \<Rightarrow> bool" where
  "is_initiator m = (user_id (msg_user m) = initiator_user_id (msg_system m))"

definition is_target :: "message \<Rightarrow> bool" where
  "is_target m =
     (msg_target m = for_all \<or> (msg_target m = for_user \<and> msg_target_user m = Some (msg_user m)))"

definition before_activate :: "message \<Rightarrow> message" where
  "before_activate m = m\<lparr>before_activated := True\<rparr>"

definition before_drop :: "message \<Rightarrow> message" where
  "before_drop m = m\<lparr>before_activated := False\<rparr>"

definition LookupUser_Fields :: "string list" where
  "LookupUser_Fields = [''user_id'', ''username'']"

text \<open>\<open>getattr(payload, name, None)\<close>\<close>

fun payload_getattr :: "payload option \<Rightarrow> string \<Rightarrow> pyval" where
  "payload_getattr (Some (Payload d)) n = (case map_of d n of Some v \<Rightarrow> v | None \<Rightarrow> PNone)"
| "payload_getattr p n = PNone"

fun resolve_target ::
  "(string \<times> (pyval \<times> user) list) list \<Rightarrow> (string \<times> pyval) list \<Rightarrow> user option" where
  "resolve_target table [] = None"
| "resolve_target table ((field, v) # rest) =
     (if v = PNone then resolve_target table rest
      else (case map_of table field of
              None \<Rightarrow> resolve_target table rest
            | Some directory \<Rightarrow>
                (case map_of directory v of
                   Some u \<Rightarrow> Some u
                 | None \<Rightarrow> resolve_target table rest)))"

text \<open>
  \<open>SimpleConsumer.parse_payload\<close> (lines 239-244). \<open>payload_type\<close> is the class of the typed
  payload, given by what its construction from keyword arguments returns or raises.
  \<open>Payload(**content['payload'])\<close> needs a mapping.
\<close>

definition parse_payload ::
  "consumer \<Rightarrow> content \<Rightarrow> (pyval \<Rightarrow> exn + payload) option \<Rightarrow> world
     \<Rightarrow> (exn + payload option \<times> bool) \<times> world" where
  "parse_payload c ct payload_type w =
     (case (case cpayload ct of
              PDict d \<Rightarrow> Inr (Payload d)
            | PResponse r \<Rightarrow> Inr (ResponsePayload r)
            | _ \<Rightarrow> Inl (TypeError ''argument after ** must be a mapping'')) of
        Inl x \<Rightarrow> (Inl x, w)
      | Inr payload \<Rightarrow>
          (case payload_type of
             None \<Rightarrow> (Inr (Some payload, False), w)
           | Some construct \<Rightarrow> check_signature c (construct (payload_serialize payload)) w))"

text \<open>
  \<open>SimpleConsumer.parse_message\<close> (lines 246-260). The table is updated first; the read
  of \<open>self.channel_name\<close> for \<open>receiver_channel\<close> raises on a connection without one.
\<close>

definition parse_message ::
  "consumer \<Rightarrow> TargetsEnum \<Rightarrow> payload option \<Rightarrow> content \<Rightarrow> world
     \<Rightarrow> (exn + message) \<times> world" where
  "parse_message c target payload ct w =
     (let table = dict_update (TargetResolver w) (custom_target_resolver c);
          lookup = map (\<lambda>field. (''to_'' @ field, payload_getattr payload (''to_'' @ field)))
                       LookupUser_Fields;
          w1 = w\<lparr>TargetResolver := table\<rparr>
      in (case self_channel_name c of
            Inl x \<Rightarrow> (Inl x, w1)
          | Inr n \<Rightarrow>
              (Inr \<lparr>msg_payload = payload,
                    msg_system = \<lparr>initiator_channel = initiator_channel (csystem ct),
                                   initiator_user_id = initiator_user_id (csystem ct),
                                   event_id = event_id (csystem ct),
                                   receiver_channel = n\<rparr>,
                    msg_user = scope_user c,
                    msg_target = target,
                    msg_lookup = lookup,
                    msg_target_user = resolve_target table lookup,
                    before_activated = False\<rparr>,
               w1)))"

text \<open>
  A hook is a callable of the message and the payload. What \<open>do_for_initiator\<close> and
  \<open>do_for_target\<close> return is an event, a mapping or nothing; what \<open>do_before\<close> returns is
  dropped. A hook is taken to return normally and to leave the message it is given as it
  is; what it does elsewhere is outside the model, its call is recorded in the trace.
\<close>

datatype reply = ReplyNone | ReplyEvent event | ReplyDict dict

type_synonym hook = "message \<Rightarrow> payload option \<Rightarrow> reply"

text \<open>
  The local functions \<open>before\<close> and \<open>do_for\<close> of \<open>send_broadcast\<close> (lines 277-290). They
  close over \<open>message\<close>, \<open>payload\<close> and \<open>do_before\<close>; the message, which they mutate, is
  passed through with the world.
\<close>

definition before :: "hook option \<Rightarrow> payload option \<Rightarrow> message \<times> world \<Rightarrow> bool \<times> message \<times> world" where
  "before do_before payload mw =
     (case do_before of
        Some h \<Rightarrow>
          (if \<not> before_activated (fst mw)
           then (True, before_activate (fst mw), emit BeforeActivate (emit (Invoke DoBefore) (snd mw)))
           else (False, mw))
      | None \<Rightarrow> (False, mw))"

definition do_for ::
  "hook option \<Rightarrow> payload option \<Rightarrow> hook_id \<Rightarrow> hook \<Rightarrow> message \<times> world \<Rightarrow> message \<times> world" where
  "do_for do_before payload hid do mw =
     (let b = before do_before payload mw;
          activated = fst b;
          m1 = fst (snd b);
          w1 = emit (Invoke hid) (snd (snd b));
          w2 = (case do m1 payload of
                  ReplyNone \<Rightarrow> w1
                | ReplyEvent e \<Rightarrow> send_json (Event_serialize e) w1
                | ReplyDict d \<Rightarrow> if d \<noteq> [] then send_json d w1 else w1)
      in if before_activated m1 \<and> \<not> activated
         then (before_drop m1, emit BeforeDrop w2)
         else (m1, w2))"

text \<open>
  \<open>SimpleConsumer.send_broadcast\<close> (lines 262-296), the body under the \<open>safe\<close> decorator.
  Besides the world the result holds the local \<open>message\<close> as the pass leaves it (\<open>None\<close>
  when the pass returns before the message is built).
\<close>

definition send_broadcast ::
  "consumer \<Rightarrow> content \<Rightarrow> TargetsEnum \<Rightarrow> hook option \<Rightarrow> hook option \<Rightarrow> hook option
     \<Rightarrow> (pyval \<Rightarrow> exn + payload) option \<Rightarrow> world \<Rightarrow> (exn + message option) \<times> world" where
  "send_broadcast c ct target do_for_target do_for_initiator do_before payload_type w =
     (case parse_payload c ct payload_type w of
        (Inl x, w1) \<Rightarrow> (Inl x, w1)
      | (Inr (payload, error), w1) \<Rightarrow>
          (if error then (Inr None, w1)
           else
             (case parse_message c target payload ct w1 of
                (Inl x, w2) \<Rightarrow> (Inl x, w2)
              | (Inr message, w2) \<Rightarrow>
                  (if (msg_target message = for_user \<and> msg_target_user message = None)
                      \<and> is_initiator message
                   then (case fire_error c RecipientNotExist w2 of
                           (Inl x, w3) \<Rightarrow> (Inl x, w3)
                         | (Inr u, w3) \<Rightarrow> (Inr (Some message), w3))
                   else
                     (let mw1 = (case do_for_initiator of
                                   Some h \<Rightarrow>
                                     if is_initiator message
                                     then do_for do_before payload DoForInitiator h (message, w2)
                                     else (message, w2)
                                 | None \<Rightarrow> (message, w2));
                          mw2 = (case do_for_target of
                                   Some h \<Rightarrow>
                                     if is_target (fst mw1)
                                     then do_for do_before payload DoForTarget h mw1
                                     else mw1
                                 | None \<Rightarrow> mw1)
                      in (Inr (Some (fst mw2)), snd mw2))))))"

section \<open>The connection coordinator\<close>

text \<open>
  \<open>SimpleConsumer.hide_events\<close> (lines 298-306), called by \<open>__init__\<close>: every event class
  whose attribute name has no leading underscore and that is not hidden is set again
  under its snake-case name.
\<close>

fun hide_events_loop :: "string list \<Rightarrow> (string \<times> attr) list \<Rightarrow> (string \<times> attr) list" where
  "hide_events_loop [] attrs = attrs"
| "hide_events_loop (e # es) attrs =
     (case map_of attrs e of
        Some (EventClass cn hidden) \<Rightarrow>
          (if \<not> hidden
           then hide_events_loop es (AList.update (camel_to_snake e) (EventClass cn hidden) attrs)
           else hide_events_loop es attrs)
      | _ \<Rightarrow> hide_events_loop es attrs)"

definition hide_events :: "consumer \<Rightarrow> consumer" where
  "hide_events c =
     (let names = filter (\<lambda>a. \<not> startswith a ''_'' \<and> \<not> startswith a ''__'') (map fst (attributes c));
          classes = filter (\<lambda>n. case getattr c n of Some (EventClass cn h) \<Rightarrow> True
                                  | Some (OtherClass cn) \<Rightarrow> True | _ \<Rightarrow> False) names;
          events = filter (\<lambda>n. case getattr c n of Some (EventClass cn h) \<Rightarrow> True | _ \<Rightarrow> False) classes
      in c\<lparr>attributes := hide_events_loop events (attributes c)\<rparr>)"

definition SimpleConsumer_init :: "consumer \<Rightarrow> consumer" where
  "SimpleConsumer_init c = hide_events c"

text \<open>\<open>SimpleConsumer.send_to_group\<close> (lines 218-221).\<close>

definition send_to_group ::
  "consumer \<Rightarrow> event option \<Rightarrow> string option \<Rightarrow> world \<Rightarrow> (exn + unit) \<times> world" where
  "send_to_group c ev group_name w =
     (if \<not> channel_layer c then (Inl AttributeError, w)
      else (case ev of
              None \<Rightarrow> (Inl AttributeError, w)
            | Some e \<Rightarrow>
                (case (case group_name of
                         Some g \<Rightarrow> if g \<noteq> [] then Some g else broadcast_group c
                       | None \<Rightarrow> broadcast_group c) of
                   Some g \<Rightarrow> (Inr (), emit (GroupSend g (to_channels e)) w)
                 | None \<Rightarrow> (Inl (TypeError ''Group name must be a valid unicode string''), w))))"

text \<open>
  Whether \<open>action_handler\<close> is truthy, and the class that \<open>action_handler.consumer = self\<close>
  writes the attribute on: a class takes it, a bound method and a built-in value raise
  AttributeError.
\<close>

fun attr_truthy :: "attr option \<Rightarrow> bool" where
  "attr_truthy None = False"
| "attr_truthy (Some (Data v)) = truthy v"
| "attr_truthy (Some a) = True"

fun attr_class :: "attr option \<Rightarrow> string option" where
  "attr_class (Some (EventClass cn h)) = Some cn"
| "attr_class (Some (OtherClass cn)) = Some cn"
| "attr_class a = None"

text \<open>
  \<open>SimpleConsumer.receive_json\<close> (lines 197-216). \<open>Event\<close> is the constructor of the
  envelope: what \<open>Event(**content, system=...)\<close> returns or raises, once
  \<open>self.get_systems()\<close> has returned.
\<close>

definition receive_json ::
  "(dict \<Rightarrow> event_system \<Rightarrow> exn + event) \<Rightarrow> consumer \<Rightarrow> dict \<Rightarrow> world \<Rightarrow> (exn + unit) \<times> world" where
  "receive_json Event c frame w =
     (if \<not> channel_layer c then fire_error c ChannelLayerDisabled w
      else
        (case map_of frame ''event'' of
           None \<Rightarrow> (Inl (KeyError ''event''), w)
         | Some n \<Rightarrow>
             (let kwargs = AList.update ''name'' n (dict_pop ''event'' frame);
                  sw = get_systems c w;
                  made = (case fst sw of Inl x \<Rightarrow> Inl x | Inr sys \<Rightarrow> Event kwargs sys)
              in (case check_signature c made (snd sw) of
                    (Inl x, w1) \<Rightarrow> (Inl x, w1)
                  | (Inr (ev, error), w1) \<Rightarrow>
                      (if error then (Inr (), w1)
                       else
                         (let publish = (\<lambda>w2.
                                (case broadcast_group c of
                                   Some (g # gs) \<Rightarrow> send_to_group c ev None w2
                                 | _ \<Rightarrow>
                                     (Inr (),
                                      emit (Print (''Broadcast group not specified for ''
                                                   @ class_name c @ '', broadcast not sent'')) w2)))
                          in (case ev of
                                None \<Rightarrow> publish w1
                              | Some e \<Rightarrow>
                                  (case get_handler_name (to_channels e) of
                                     Inl x \<Rightarrow> (Inl x, w1)
                                   | Inr hn \<Rightarrow>
                                       (let action_handler = getattr c hn
                                        in if attr_truthy action_handler
                                           then (case attr_class action_handler of
                                                   Some cn \<Rightarrow>
                                                     publish (w1\<lparr>class_consumer :=
                                                       AList.update cn c (class_consumer w1)\<rparr>)
                                                 | None \<Rightarrow> (Inl AttributeError, w1))
                                           else fire_error c ActionNotExist w1)))))))))"

section \<open>Construction of typed payloads\<close>

text \<open>
  The messages of the \<open>TypeError\<close> that CPython raises when a class generated from declared
  fields is constructed from keyword arguments: \<open>fname\<close> is the name of the called
  function as the message prints it (\<open>__init__\<close>, from Python 3.10 on qualified by the
  class).
\<close>

definition quoted :: "string \<Rightarrow> string" where
  "quoted s = CHR 0x27 # s @ [CHR 0x27]"

fun tail_names :: "string list \<Rightarrow> string" where
  "tail_names [] = []"
| "tail_names [z] = '', and '' @ quoted z"
| "tail_names (y # ys) = '', '' @ quoted y @ tail_names ys"

fun name_list :: "string list \<Rightarrow> string" where
  "name_list [] = []"
| "name_list [a] = quoted a"
| "name_list [a, b] = quoted a @ '' and '' @ quoted b"
| "name_list (a # ys) = quoted a @ tail_names ys"

fun show_nat :: "nat \<Rightarrow> string" where
  "show_nat n =
     (if n < 10 then [char_of (48 + n)] else show_nat (n div 10) @ [char_of (48 + n mod 10)])"

definition missing_required :: "string \<Rightarrow> string list \<Rightarrow> string" where
  "missing_required fname names =
     fname @ ''() missing '' @ show_nat (length names) @ '' required positional argument''
       @ (if length names = 1 then [] else ''s'') @ '': '' @ name_list names"

definition unexpected_keyword :: "string \<Rightarrow> string \<Rightarrow> string" where
  "unexpected_keyword fname k = fname @ ''() got an unexpected keyword argument '' @ quoted k"

text \<open>
  Modelled from the spec: the typed payload classes (subclasses of \<open>Payload\<close>) and their
  \<open>serialize\<close> are in \<^verbatim>\<open>signatures.py\<close>. The spec (3, 4.2): a payload is a named, ordered set
  of fields that serializes losslessly to and from a plain mapping; construction from an
  untyped mapping fails on an unrecognized field and on an absent required field. A
  shape is the list of the declared field names; \<open>construct\<close> binds keyword arguments to
  it as a Python call does: the first keyword that is no field is reported, then the
  fields left without a value.
\<close>

definition construct :: "string \<Rightarrow> string list \<Rightarrow> dict \<Rightarrow> exn + dict" where
  "construct fname shape kwargs =
     (case filter (\<lambda>k. k \<notin> set shape) (map fst kwargs) of
        k # ks \<Rightarrow> Inl (TypeError (unexpected_keyword fname k))
      | [] \<Rightarrow>
          (case filter (\<lambda>f. \<not> has_key f kwargs) shape of
             [] \<Rightarrow> Inr (map (\<lambda>f. (f, (case map_of kwargs f of Some v \<Rightarrow> v | None \<Rightarrow> PNone))) shape)
           | ms \<Rightarrow> Inl (TypeError (missing_required fname ms))))"

definition deserialize :: "string \<Rightarrow> string list \<Rightarrow> pyval \<Rightarrow> exn + payload" where
  "deserialize fname shape v =
     (case v of
        PDict kwargs \<Rightarrow>
          (case construct fname shape kwargs of Inl x \<Rightarrow> Inl x | Inr d \<Rightarrow> Inr (Payload d))
      | _ \<Rightarrow> Inl (TypeError ''argument after ** must be a mapping''))"

section \<open>Reading the trace\<close>

fun hook_calls :: "action list \<Rightarrow> hook_id list" where
  "hook_calls [] = []"
| "hook_calls (Invoke h # as) = h # hook_calls as"
| "hook_calls (a # as) = hook_calls as"

fun transmitted :: "action list \<Rightarrow> dict list" where
  "transmitted [] = []"
| "transmitted (Transmit d # as) = d # transmitted as"
| "transmitted (a # as) = transmitted as"

text \<open>The frame that \<open>Error(payload=ResponsePayload.X(...), consumer=self).fire()\<close> sends.\<close>

definition error_envelope :: "response_payload \<Rightarrow> dict" where
  "error_envelope rp = [(''event'', PStr ''error''), (''payload'', PResponse rp)]"

text \<open>
  Modelled from the spec: the class \<open>Event\<close> is in \<^verbatim>\<open>signatures.py\<close>. The spec (3): an
  envelope is a name, system metadata and a payload. \<open>Event(**content, system=...)\<close> binds
  the keys of the frame as keyword arguments beside \<open>system\<close>; a frame that brings a
  \<open>system\<close> key of its own gives the keyword twice.
\<close>

definition Event_init :: "dict \<Rightarrow> event_system \<Rightarrow> exn + event" where
  "Event_init kwargs sys =
     (if has_key ''system'' kwargs
      then Inl (TypeError (''Event() got multiple values for keyword argument '' @ quoted ''system''))
      else (case construct ''__init__'' [''name'', ''payload''] kwargs of
              Inl x \<Rightarrow> Inl x
            | Inr d \<Rightarrow>
                Inr \<lparr>ev_name = (case map_of d ''name'' of Some v \<Rightarrow> v | None \<Rightarrow> PNone),
                     ev_system = sys,
                     ev_payload = (case map_of d ''payload'' of Some v \<Rightarrow> v | None \<Rightarrow> PNone)\<rparr>))"

text \<open>
  The handler names under which \<open>hide_events\<close> registers the visible event classes of a
  consumer type: an attribute is a visible event when it is an event class that is not
  hidden.
\<close>

definition visible_event :: "(string \<times> attr) list \<Rightarrow> string \<Rightarrow> bool" where
  "visible_event attrs n = (case map_of attrs n of Some (EventClass cn h) \<Rightarrow> \<not> h | _ \<Rightarrow> False)"

definition registered_handlers :: "consumer \<Rightarrow> string list" where
  "registered_handlers c =
     map camel_to_snake
       (filter (\<lambda>n. \<not> startswith n ''_'' \<and> visible_event (attributes c) n)
          (map fst (attributes c)))"

definition flag_at_return :: "(exn + message option) \<times> world \<Rightarrow> bool option" where
  "flag_at_return r = (case fst r of Inr (Some m) \<Rightarrow> Some (before_activated m) | _ \<Rightarrow> None)"

section \<open>A chat deployment\<close>

text \<open>
  A consumer type with a channel layer and a broadcast group, one visible event class
  beside the hidden \<open>Error\<close>, and a resolver that knows user 2 by id; the world before anything happened;
  a broadcast and a direct message sent by user 1; hooks that return nothing.
\<close>

definition empty_world :: world where
  "empty_world = \<lparr>trace = [], uuid_next = 0, TargetResolver = [], class_consumer = []\<rparr>"

definition chat_consumer :: "nat \<Rightarrow> consumer" where
  "chat_consumer uid =
     \<lparr>class_name = ''ChatConsumer'', channel_name = Some ''chan'',
      broadcast_group = Some ''chat'', scope_user = User uid,
      attributes = [(''Error'', EventClass ''Error'' True),
                    (''ChatSend'', EventClass ''ChatSend'' False)],
      custom_target_resolver = [(''to_user_id'', [(PInt 2, User 2)])]\<rparr>"

definition chat_content :: content where
  "chat_content =
     \<lparr>ctype = PStr ''chat.send'', cpayload = PDict [(''text'', PStr ''hi'')],
      csystem = \<lparr>initiator_channel = ''chan'', initiator_user_id = Some 1, event_id = 0\<rparr>\<rparr>"

definition direct_content :: "int \<Rightarrow> content" where
  "direct_content to_id =
     \<lparr>ctype = PStr ''chat.send'', cpayload = PDict [(''to_user_id'', PInt to_id), (''text'', PStr ''hi'')],
      csystem = \<lparr>initiator_channel = ''chan'', initiator_user_id = Some 1, event_id = 0\<rparr>\<rparr>"

definition quiet_hook :: hook where
  "quiet_hook m p = ReplyNone"

definition chat_frame :: dict where
  "chat_frame = [(''event'', PStr ''chat.send''), (''payload'', PDict [(''text'', PStr ''hi'')])]"

section \<open>Facts about the string operations\<close>

lemma startswith_set: "startswith s p \<Longrightarrow> set p \<subseteq> set s"
  by (induction s p rule: startswith.induct) auto

lemma py_in_set: "py_in sub s \<Longrightarrow> set sub \<subseteq> set s"
proof (induction s)
  case Nil
  then show ?case by simp
next
  case (Cons a s)
  then show ?case using startswith_set [of "a # s" sub] by auto
qed

lemma startswith_append_notin:
  "startswith (t @ c # r) sep \<Longrightarrow> c \<notin> set sep \<Longrightarrow> startswith t sep"
  by (induction t sep rule: startswith.induct) auto

lemma startswith_snoc_notin:
  "startswith (t @ [c]) sep \<Longrightarrow> c \<notin> set sep \<Longrightarrow> startswith t sep"
  by (rule startswith_append_notin)

lemma py_in_append2: "py_in sub b \<Longrightarrow> py_in sub (a @ b)"
  by (induction a) auto

lemma py_in_skip:
  "c0 \<notin> set a \<Longrightarrow> py_in (c0 # sub) (a @ r) = py_in (c0 # sub) r"
  by (induction a) auto

lemma py_in_Cons_notin: "c \<notin> set sep \<Longrightarrow> sep \<noteq> [] \<Longrightarrow> py_in sep (c # s) = py_in sep s"
  by (cases sep) auto

lemma py_in_snoc_notin: "py_in sep (s @ [c]) \<Longrightarrow> c \<notin> set sep \<Longrightarrow> sep \<noteq> [] \<Longrightarrow> py_in sep s"
proof (induction s)
  case Nil
  then show ?case by (cases sep) auto
next
  case (Cons x s)
  then show ?case using startswith_append_notin [of "x # s" c "[]" sep] by auto
qed

lemma split_from_skip:
  "\<not> py_in sep a \<Longrightarrow> c \<notin> set sep \<Longrightarrow>
     split_from sep cur (a @ c # r) = split_from sep (rev a @ cur) (c # r)"
proof (induction a arbitrary: cur)
  case Nil
  then show ?case by simp
next
  case (Cons x a)
  from Cons.prems have "\<not> startswith (x # a) sep" and "\<not> py_in sep a" by auto
  with Cons.prems(2) have "\<not> startswith ((x # a) @ c # r) sep"
    using startswith_append_notin by blast
  with Cons.IH [OF \<open>\<not> py_in sep a\<close> Cons.prems(2)] show ?case by simp
qed

lemma split_from_end: "\<not> py_in sep a \<Longrightarrow> split_from sep cur a = [rev cur @ a]"
  by (induction a arbitrary: cur) auto

lemma char_of_49: "char_of (49::nat) = CHR ''1''"
  by code_simp

lemma missing_required_one:
  "missing_required fname [f] = fname @ ''() missing 1 required positional argument: '' @ quoted f"
  by (simp add: missing_required_def char_of_49)

lemma strip_quoted: "strip (quoted f) = quoted f"
  by (simp add: strip_def quoted_def is_space_def)

lemma remove_quotes_quoted: "CHR 0x27 \<notin> set f \<Longrightarrow> remove_quotes (quoted f) = f"
  by (auto simp: remove_quotes_def quoted_def filter_id_conv)

lemma no_space_not_in:
  "CHR '' '' \<notin> set s \<Longrightarrow> CHR '' '' \<in> set sub \<Longrightarrow> \<not> py_in sub s"
  using py_in_set by blast

lemma in_missing:
  "py_in '' missing '' (fname @ ''() missing 1 required positional argument: '' @ quoted f)"
  by (rule py_in_append2) simp

lemma not_in_unexpected:
  assumes "CHR '' '' \<notin> set fname" "CHR '' '' \<notin> set f"
  shows "\<not> py_in '' unexpected '' (fname @ ''() missing 1 required positional argument: '' @ quoted f)"
  using assms by (simp add: py_in_skip quoted_def)

lemma split_missing:
  assumes "CHR '' '' \<notin> set fname" "CHR '' '' \<notin> set f"
  shows "py_split ''argument: '' (fname @ ''() missing 1 required positional argument: '' @ quoted f)
         = [fname @ ''() missing 1 required positional '', quoted f]"
proof -
  have a: "\<not> py_in ''argument: '' fname"
    using assms(1) by (rule no_space_not_in) simp
  have b: "\<not> py_in ''argument: '' (quoted f)"
    by (rule no_space_not_in) (use assms(2) in \<open>simp_all add: quoted_def\<close>)
  have "split_from ''argument: '' [] (fname @ CHR ''('' # '') missing 1 required positional argument: '' @ quoted f)
        = split_from ''argument: '' (rev fname @ []) (CHR ''('' # '') missing 1 required positional argument: '' @ quoted f)"
    by (rule split_from_skip [OF a]) simp
  also have "\<dots> = [fname @ ''() missing 1 required positional '', quoted f]"
    by (simp add: split_from_end [OF b])
  finally show ?thesis by (simp add: py_split_def)
qed

lemma in_unexpected:
  "py_in '' unexpected '' (fname @ ''() got an unexpected keyword argument '' @ quoted f)"
  by (rule py_in_append2) simp

lemma not_in_missing:
  assumes "CHR '' '' \<notin> set fname" "CHR '' '' \<notin> set f"
  shows "\<not> py_in '' missing '' (fname @ ''() got an unexpected keyword argument '' @ quoted f)"
  using assms by (simp add: py_in_skip quoted_def)

lemma not_in_quoted:
  assumes "\<not> py_in ''argument'' f"
  shows "\<not> py_in ''argument'' (quoted f)"
proof
  assume "py_in ''argument'' (quoted f)"
  then have "py_in ''argument'' (f @ [CHR 0x27])"
    by (simp add: quoted_def)
  then have "py_in ''argument'' f"
    by (rule py_in_snoc_notin) simp_all
  with assms show False by simp
qed

lemma split_unexpected:
  assumes "\<not> py_in ''argument'' fname" "\<not> py_in ''argument'' f"
  shows "py_split ''argument'' (fname @ ''() got an unexpected keyword argument '' @ quoted f)
         = [fname @ ''() got an unexpected keyword '', CHR '' '' # quoted f]"
proof -
  have b: "\<not> py_in ''argument'' (CHR '' '' # quoted f)"
    using not_in_quoted [OF assms(2)] by simp
  have "split_from ''argument'' [] (fname @ CHR ''('' # '') got an unexpected keyword argument '' @ quoted f)
        = split_from ''argument'' (rev fname @ []) (CHR ''('' # '') got an unexpected keyword argument '' @ quoted f)"
    by (rule split_from_skip [OF assms(1)]) simp
  also have "\<dots> = [fname @ ''() got an unexpected keyword '', CHR '' '' # quoted f]"
    using split_from_end [OF b] by simp
  finally show ?thesis by (simp add: py_split_def)
qed

lemma strip_space_quoted: "strip (CHR '' '' # quoted f) = quoted f"
  by (simp add: strip_def quoted_def is_space_def)

section \<open>Facts about error envelopes\<close>

lemma SimpleEvent_init_direct:
  "SimpleEvent_init cls (Some c) None payload w =
     (case channel_name c of
        None \<Rightarrow> (Inl AttributeError, w)
      | Some n \<Rightarrow>
          (let p = (case payload of
                      Some p \<Rightarrow> if arg_truthy p then p else PayloadObj (Payload [])
                    | None \<Rightarrow> PayloadObj (Payload []))
           in (Inr (Some \<lparr>se_consumer = c, se_hidden = False, se_payload = p,
                          se_content = \<lparr>ctype = PStr (camel_to_dot (cls_name cls)),
                                         cpayload = payload_value p,
                                         csystem = \<lparr>initiator_channel = n,
                                                     initiator_user_id = user_id (scope_user c),
                                                     event_id = uuid_next w\<rparr>\<rparr>\<rparr>),
               w\<lparr>uuid_next := Suc (uuid_next w)\<rparr>)))"
  by (subst SimpleEvent_init.simps)
     (simp add: parse_content_def get_systems_def self_channel_name_def Let_def
           split: option.splits)

lemma camel_to_dot_Error: "camel_to_dot ''Error'' = ''error''"
  by (simp add: camel_to_dot_def is_upper_def to_lower_def)

lemma fire_error_eq:
  "fire_error c rp w =
     (case channel_name c of
        None \<Rightarrow> (Inl AttributeError, w)
      | Some n \<Rightarrow>
          (Inr (), w\<lparr>trace := trace w @ [Transmit (error_envelope rp)],
                     uuid_next := Suc (uuid_next w)\<rparr>))"
  by (simp add: fire_error_def SimpleEvent_init_direct fire_def return_event_def send_json_def
      Event_serialize_def has_key_def dict_pop_def emit_def Error_cls_def
      camel_to_dot_Error error_envelope_def split: option.splits)

lemma fire_error_layer:
  "channel_layer c \<Longrightarrow>
     fire_error c rp w =
       (Inr (), w\<lparr>trace := trace w @ [Transmit (error_envelope rp)],
                  uuid_next := Suc (uuid_next w)\<rparr>)"
  by (auto simp: fire_error_eq channel_layer_def)

lemma fire_error_no_layer:
  "\<not> channel_layer c \<Longrightarrow> fire_error c rp w = (Inl AttributeError, w)"
  by (simp add: fire_error_eq channel_layer_def)

lemma get_systems_layer:
  "get_systems c w = (Inr sys, w0) \<Longrightarrow> channel_layer c \<and> w0 = w\<lparr>uuid_next := Suc (uuid_next w)\<rparr>"
  by (auto simp: get_systems_def self_channel_name_def channel_layer_def split: option.splits)

lemma channel_layer_init [simp]: "channel_layer (SimpleConsumer_init c) = channel_layer c"
  by (simp add: SimpleConsumer_init_def hide_events_def channel_layer_def Let_def)

section \<open>Outbound frames\<close>

text \<open>
  C6. Whatever mapping is passed to \<open>send_json\<close>, the frame handed to the transport is the
  mapping without its \<open>system\<close> key: the frame has no \<open>system\<close> key, every other key keeps
  its value, and the order of the keys is kept.
\<close>

theorem send_json_strips_system:
  "\<exists>sent. trace (send_json content w) = trace w @ [Transmit sent]
     \<and> \<not> has_key ''system'' sent
     \<and> (\<forall>k. k \<noteq> ''system'' \<longrightarrow> map_of sent k = map_of content k)
     \<and> sent = filter (\<lambda>(k, v). k \<noteq> ''system'') content"
proof -
  let ?sent = "filter (\<lambda>(k, v). k \<noteq> ''system'') content"
  have del: "AList.delete ''system'' content = ?sent"
    by (induction content) auto
  have same: "\<not> has_key ''system'' content \<Longrightarrow> ?sent = content"
    by (induction content) (auto simp: has_key_def split: if_splits)
  have tr: "trace (send_json content w) = trace w @ [Transmit ?sent]"
    using same by (simp add: send_json_def emit_def dict_pop_def del)
  have "map_of ?sent = (map_of content)(''system'' := None)"
    using delete_conv' [of "''system''" content] by (simp add: del)
  then have "\<not> has_key ''system'' ?sent"
    and "\<forall>k. k \<noteq> ''system'' \<longrightarrow> map_of ?sent k = map_of content k"
    by (simp_all add: has_key_def)
  with tr show ?thesis by blast
qed

theorem send_json_strips_system_witness:
  "trace (send_json [(''event'', PStr ''chat.send''), (''system'', PDict []),
                     (''payload'', PDict [(''text'', PStr ''hi'')])]
            empty_world)
   = [Transmit [(''event'', PStr ''chat.send''), (''payload'', PDict [(''text'', PStr ''hi'')])]]"
  using send_json_strips_system
    [of "[(''event'', PStr ''chat.send''), (''system'', PDict []),
          (''payload'', PDict [(''text'', PStr ''hi'')])]"
        "empty_world"]
  by (auto simp: empty_world_def)

section \<open>The routing pass\<close>

lemma hook_calls_append: "hook_calls (xs @ ys) = hook_calls xs @ hook_calls ys"
  by (induction xs rule: hook_calls.induct) auto

lemma count_activate_send_json:
  "count_list (trace (send_json d w)) BeforeActivate = count_list (trace w) BeforeActivate"
  by (simp add: send_json_def emit_def)

lemma hook_calls_send_json: "hook_calls (trace (send_json d w)) = hook_calls (trace w)"
  by (simp add: send_json_def emit_def hook_calls_append)

lemma check_signature_no_error:
  "check_signature c f w = (Inr (d, False), w1) \<Longrightarrow> w1 = w"
  by (auto simp: check_signature_def split: sum.splits exn.splits if_splits prod.splits)

lemma parse_payload_no_error:
  "parse_payload c ct payload_type w = (Inr (p, False), w1) \<Longrightarrow> w1 = w"
  by (auto simp: parse_payload_def split: sum.splits option.splits pyval.splits
           dest: check_signature_no_error)

lemma parse_message_fresh:
  "parse_message c target p ct w = (Inr m, w2) \<Longrightarrow>
     \<not> before_activated m \<and> trace w2 = trace w \<and> msg_target m = target
       \<and> msg_user m = scope_user c \<and> channel_layer c"
  by (auto simp: parse_message_def Let_def self_channel_name_def channel_layer_def
           split: option.splits)

lemma do_for_message:
  "fst (do_for do_before p hid h mw) =
     (fst mw)\<lparr>before_activated := (do_before \<noteq> None \<and> \<not> before_activated (fst mw))\<rparr>"
  by (cases do_before)
     (auto simp: do_for_def before_def Let_def before_activate_def before_drop_def)

lemma do_for_hook_calls:
  "hook_calls (trace (snd (do_for do_before p hid h mw))) =
     hook_calls (trace (snd mw))
       @ (if do_before \<noteq> None \<and> \<not> before_activated (fst mw) then [DoBefore] else []) @ [hid]"
  by (cases do_before)
     (auto simp: do_for_def before_def Let_def emit_def hook_calls_append hook_calls_send_json
           split: reply.splits)

lemma do_for_activations:
  "count_list (trace (snd (do_for do_before p hid h mw))) BeforeActivate =
     count_list (trace (snd mw)) BeforeActivate
       + (if do_before \<noteq> None \<and> \<not> before_activated (fst mw) then 1 else 0)"
  by (cases do_before)
     (auto simp: do_for_def before_def Let_def emit_def count_activate_send_json
           split: reply.splits)

lemma is_target_flag [simp]: "is_target (m\<lparr>before_activated := b\<rparr>) = is_target m"
  by (simp add: is_target_def)

lemma is_initiator_flag [simp]: "is_initiator (m\<lparr>before_activated := b\<rparr>) = is_initiator m"
  by (simp add: is_initiator_def)

text \<open>
  The message that \<open>parse_message\<close> builds on a connection of the chat deployment, and the
  payload that \<open>parse_payload\<close> hands it.
\<close>

lemma chat_parse_message:
  "parse_message (chat_consumer u) target p ct empty_world =
     (Inr (projr (fst (parse_message (chat_consumer u) target p ct empty_world))),
      snd (parse_message (chat_consumer u) target p ct empty_world))"
  by (simp add: parse_message_def Let_def self_channel_name_def chat_consumer_def)

lemma chat_message:
  "projr (fst (parse_message (chat_consumer u) target p ct empty_world)) =
     \<lparr>msg_payload = p,
      msg_system = \<lparr>initiator_channel = initiator_channel (csystem ct),
                     initiator_user_id = initiator_user_id (csystem ct),
                     event_id = event_id (csystem ct),
                     receiver_channel = ''chan''\<rparr>,
      msg_user = User u,
      msg_target = target,
      msg_lookup = [(''to_user_id'', payload_getattr p ''to_user_id''),
                    (''to_username'', payload_getattr p ''to_username'')],
      msg_target_user =
        resolve_target [(''to_user_id'', [(PInt 2, User 2)])]
          [(''to_user_id'', payload_getattr p ''to_user_id''),
           (''to_username'', payload_getattr p ''to_username'')],
      before_activated = False\<rparr>"
  by (simp add: parse_message_def Let_def self_channel_name_def chat_consumer_def
      empty_world_def dict_update_def LookupUser_Fields_def)

text \<open>
  C1. In a pass that builds its message (the payload passed the signature check), where
  the local user is both the initiator and a target and all three hooks are supplied,
  the hooks called are, in this order, the before hook, the initiator hook and the target
  hook: the before hook once, and each role's hook once.
\<close>

theorem before_hook_once_on_self_receipt:
  assumes pp: "parse_payload c ct payload_type w = (Inr (p, False), w1)"
      and pm: "parse_message c target p ct w1 = (Inr m, w2)"
      and ini: "is_initiator m" and tgt: "is_target m"
  shows "\<exists>m' w'. send_broadcast c ct target (Some do_for_target) (Some do_for_initiator)
                    (Some do_before) payload_type w = (Inr (Some m'), w')
           \<and> hook_calls (trace w') = hook_calls (trace w) @ [DoBefore, DoForInitiator, DoForTarget]"
proof -
  have w1: "w1 = w" using pp by (rule parse_payload_no_error)
  from parse_message_fresh [OF pm]
  have fresh: "\<not> before_activated m" and tr: "trace w2 = trace w1" by simp_all
  from tgt have no_abort: "\<not> (msg_target m = for_user \<and> msg_target_user m = None)"
    by (auto simp: is_target_def)
  let ?mw1 = "do_for (Some do_before) p DoForInitiator do_for_initiator (m, w2)"
  let ?mw2 = "do_for (Some do_before) p DoForTarget do_for_target ?mw1"
  have sb: "send_broadcast c ct target (Some do_for_target) (Some do_for_initiator)
              (Some do_before) payload_type w = (Inr (Some (fst ?mw2)), snd ?mw2)"
    using pp pm ini tgt no_abort
    by (auto simp: send_broadcast_def Let_def do_for_message)
  have m1: "before_activated (fst ?mw1)"
    using fresh by (simp add: do_for_message)
  have h1: "hook_calls (trace (snd ?mw1)) = hook_calls (trace w) @ [DoBefore, DoForInitiator]"
    using fresh tr w1 by (simp add: do_for_hook_calls)
  have "hook_calls (trace (snd ?mw2)) = hook_calls (trace (snd ?mw1)) @ [DoForTarget]"
    using m1 by (simp add: do_for_hook_calls [of _ _ DoForTarget])
  with h1 sb show ?thesis by simp
qed

theorem before_hook_once_on_self_receipt_witness:
  "hook_calls (trace (snd (send_broadcast (chat_consumer 1) chat_content for_all
     (Some quiet_hook) (Some quiet_hook) (Some quiet_hook)
     (Some (deserialize ''__init__'' [''text''])) empty_world)))
   = [DoBefore, DoForInitiator, DoForTarget]"
proof -
  let ?p = "Some (Payload [(''text'', PStr ''hi'')])"
  let ?m = "projr (fst (parse_message (chat_consumer 1) for_all ?p chat_content empty_world))"
  have pp: "parse_payload (chat_consumer 1) chat_content (Some (deserialize ''__init__'' [''text'']))
              empty_world = (Inr (?p, False), empty_world)"
    by (simp add: parse_payload_def chat_content_def check_signature_def deserialize_def
        construct_def has_key_def)
  have ini: "is_initiator ?m"
    by (simp add: chat_message is_initiator_def chat_content_def)
  have tgt: "is_target ?m"
    by (simp add: chat_message is_target_def)
  from before_hook_once_on_self_receipt [OF pp chat_parse_message ini tgt,
      where do_for_target = quiet_hook and do_for_initiator = quiet_hook
        and do_before = quiet_hook]
  show ?thesis by (auto simp: empty_world_def)
qed

text \<open>
  C2, as stated, fails: in the pass of the initiator's connection over a direct message
  to another user only the initiator role applies, the before hook sets the flag, and
  the pass returns with the flag still set.
\<close>

theorem before_flag_survives_single_role:
  "flag_at_return (send_broadcast (chat_consumer 1) (direct_content 2) for_user
     (Some quiet_hook) (Some quiet_hook) (Some quiet_hook) None empty_world) = Some True"
  by code_simp

text \<open>
  C2, amended. In a pass that builds its message the flag is set at most once. When the
  pass returns, the flag is set if and only if a before hook was supplied, the pass was
  not aborted for a missing recipient, and the hook of exactly one of the two roles ran;
  so it is clear whenever both roles' hooks ran, and whenever none did.
\<close>

theorem before_flag_at_return:
  assumes pp: "parse_payload c ct payload_type w = (Inr (p, False), w1)"
      and pm: "parse_message c target p ct w1 = (Inr m, w2)"
  shows "\<exists>m' w'. send_broadcast c ct target do_for_target do_for_initiator do_before payload_type w
                    = (Inr (Some m'), w')
           \<and> count_list (trace w') BeforeActivate \<le> count_list (trace w) BeforeActivate + 1
           \<and> before_activated m' =
               (do_before \<noteq> None
                \<and> \<not> (msg_target m = for_user \<and> msg_target_user m = None \<and> is_initiator m)
                \<and> ((is_initiator m \<and> do_for_initiator \<noteq> None) \<noteq> (is_target m \<and> do_for_target \<noteq> None)))"
proof -
  have w1: "w1 = w" using pp by (rule parse_payload_no_error)
  from parse_message_fresh [OF pm]
  have fresh: "\<not> before_activated m" and tr: "trace w2 = trace w" and layer: "channel_layer c"
    using w1 by simp_all
  show ?thesis
  proof (cases "msg_target m = for_user \<and> msg_target_user m = None \<and> is_initiator m")
    case True
    then have "send_broadcast c ct target do_for_target do_for_initiator do_before payload_type w
                 = (Inr (Some m), snd (fire_error c RecipientNotExist w2))"
      using pp pm by (simp add: send_broadcast_def fire_error_layer [OF layer])
    then show ?thesis using True fresh tr by (simp add: fire_error_layer [OF layer])
  next
    case False
    define mw1 where "mw1 = (case do_for_initiator of
                                 Some h \<Rightarrow>
                                   if is_initiator m
                                   then do_for do_before p DoForInitiator h (m, w2)
                                   else (m, w2)
                               | None \<Rightarrow> (m, w2))"
    define mw2 where "mw2 = (case do_for_target of
                                 Some h \<Rightarrow>
                                   if is_target (fst mw1)
                                   then do_for do_before p DoForTarget h mw1
                                   else mw1
                               | None \<Rightarrow> mw1)"
    have sb: "send_broadcast c ct target do_for_target do_for_initiator do_before payload_type w
                = (Inr (Some (fst mw2)), snd mw2)"
      unfolding send_broadcast_def pp
      by (simp add: Let_def pm False mw1_def mw2_def cong: option.case_cong if_cong)
    have f1: "fst mw1 = m\<lparr>before_activated :=
                (do_before \<noteq> None \<and> is_initiator m \<and> do_for_initiator \<noteq> None)\<rparr>"
      using fresh by (auto simp: mw1_def do_for_message split: option.splits)
    have c1: "count_list (trace (snd mw1)) BeforeActivate =
                count_list (trace w) BeforeActivate
                  + (if do_before \<noteq> None \<and> is_initiator m \<and> do_for_initiator \<noteq> None then 1 else 0)"
      using fresh tr by (auto simp: mw1_def do_for_activations split: option.splits)
    have f2: "before_activated (fst mw2) =
                (do_before \<noteq> None
                 \<and> ((is_initiator m \<and> do_for_initiator \<noteq> None) \<noteq> (is_target m \<and> do_for_target \<noteq> None)))"
      by (auto simp: mw2_def f1 do_for_message split: option.splits)
    have c2: "count_list (trace (snd mw2)) BeforeActivate \<le> count_list (trace w) BeforeActivate + 1"
      by (auto simp: mw2_def c1 f1 do_for_activations split: option.splits)
    from sb f2 c2 False show ?thesis by simp
  qed
qed

theorem before_flag_at_return_witness:
  "flag_at_return (send_broadcast (chat_consumer 1) chat_content for_all
     (Some quiet_hook) (Some quiet_hook) (Some quiet_hook) None empty_world) = Some False"
proof -
  let ?p = "Some (Payload [(''text'', PStr ''hi'')])"
  let ?m = "projr (fst (parse_message (chat_consumer 1) for_all ?p chat_content empty_world))"
  have pp: "parse_payload (chat_consumer 1) chat_content None empty_world
              = (Inr (?p, False), empty_world)"
    by (simp add: parse_payload_def chat_content_def)
  have ini: "is_initiator ?m"
    by (simp add: chat_message is_initiator_def chat_content_def)
  have tgt: "is_target ?m"
    by (simp add: chat_message is_target_def)
  from before_flag_at_return [OF pp chat_parse_message [where target = for_all],
      where do_for_target = "Some quiet_hook" and do_for_initiator = "Some quiet_hook"
        and do_before = "Some quiet_hook"] ini tgt
  show ?thesis by (auto simp: flag_at_return_def)
qed

text \<open>
  C3. In a pass that builds its message, for a direct target with no resolved user: on
  a connection of the initiator the pass sends one RecipientNotExist error envelope to
  that connection and returns, calling no hook; on any other connection the pass
  returns without calling a hook or sending anything.
\<close>

theorem recipient_not_exist_aborts:
  assumes pp: "parse_payload c ct payload_type w = (Inr (p, False), w1)"
      and pm: "parse_message c target p ct w1 = (Inr m, w2)"
      and direct: "msg_target m = for_user" and unresolved: "msg_target_user m = None"
  shows "(is_initiator m \<longrightarrow>
            send_broadcast c ct target do_for_target do_for_initiator do_before payload_type w
              = (Inr (Some m), w2\<lparr>trace := trace w @ [Transmit (error_envelope RecipientNotExist)],
                                  uuid_next := Suc (uuid_next w2)\<rparr>))
       \<and> (\<not> is_initiator m \<longrightarrow>
            send_broadcast c ct target do_for_target do_for_initiator do_before payload_type w
              = (Inr (Some m), w2) \<and> trace w2 = trace w)"
proof -
  have w1: "w1 = w" using pp by (rule parse_payload_no_error)
  from parse_message_fresh [OF pm] have tr: "trace w2 = trace w" and layer: "channel_layer c"
    using w1 by simp_all
  have nt: "\<not> is_target m" using direct unresolved by (simp add: is_target_def)
  show ?thesis
    using pp pm direct unresolved nt tr
    by (auto simp: send_broadcast_def Let_def fire_error_layer [OF layer] split: option.splits)
qed

theorem recipient_not_exist_aborts_witness:
  "trace (snd (send_broadcast (chat_consumer 1) (direct_content 42) for_user
     (Some quiet_hook) (Some quiet_hook) (Some quiet_hook) None empty_world))
     = [Transmit (error_envelope RecipientNotExist)]
   \<and> trace (snd (send_broadcast (chat_consumer 3) (direct_content 42) for_user
     (Some quiet_hook) (Some quiet_hook) (Some quiet_hook) None empty_world)) = []"
proof -
  let ?p = "Some (Payload [(''to_user_id'', PInt 42), (''text'', PStr ''hi'')])"
  let ?m = "\<lambda>u. projr (fst (parse_message (chat_consumer u) for_user ?p (direct_content 42) empty_world))"
  have pp: "parse_payload (chat_consumer u) (direct_content 42) None empty_world
              = (Inr (?p, False), empty_world)" for u
    by (simp add: parse_payload_def direct_content_def)
  have direct: "msg_target (?m u) = for_user" for u
    by (simp add: chat_message)
  have unresolved: "msg_target_user (?m u) = None" for u
    by (simp add: chat_message)
  have ini: "is_initiator (?m 1)"
    by (simp add: chat_message is_initiator_def direct_content_def)
  have other: "\<not> is_initiator (?m 3)"
    by (simp add: chat_message is_initiator_def direct_content_def)
  from recipient_not_exist_aborts [OF pp [of 1] chat_parse_message direct unresolved,
      where do_for_target = "Some quiet_hook" and do_for_initiator = "Some quiet_hook"
        and do_before = "Some quiet_hook"] ini
    recipient_not_exist_aborts [OF pp [of 3] chat_parse_message direct unresolved,
      where do_for_target = "Some quiet_hook" and do_for_initiator = "Some quiet_hook"
        and do_before = "Some quiet_hook"] other
  show ?thesis by (simp add: empty_world_def)
qed

section \<open>Inbound frames without a channel layer\<close>

text \<open>
  C8. On a connection without a channel layer \<open>receive_json\<close> constructs the
  ChannelLayerDisabled error event; its content is synthesized with \<open>get_systems\<close>, which
  reads \<open>self.channel_name\<close>. The attribute does not exist on such a connection: the call
  raises AttributeError before \<open>fire\<close>, and no envelope is sent, whatever the frame.
\<close>

theorem receive_json_channel_layer_disabled_raises:
  "\<not> channel_layer c \<Longrightarrow> receive_json Event c frame w = (Inl AttributeError, w)"
  by (simp add: receive_json_def fire_error_no_layer)

theorem receive_json_channel_layer_disabled_raises_witness:
  "receive_json Event_init ((chat_consumer 1)\<lparr>channel_name := None\<rparr>) chat_frame empty_world
   = (Inl AttributeError, empty_world)"
proof -
  have "\<not> channel_layer ((chat_consumer 1)\<lparr>channel_name := None\<rparr>)"
    by (simp add: channel_layer_def)
  then show ?thesis by (rule receive_json_channel_layer_disabled_raises)
qed

section \<open>Signature failures\<close>

lemma check_signature_missing:
  assumes "channel_layer c"
      and "CHR '' '' \<notin> set fname" "CHR '' '' \<notin> set f" "CHR 0x27 \<notin> set f"
  shows "check_signature c (Inl (TypeError (missing_required fname [f]))) w
           = (Inr (None, True),
              w\<lparr>trace := trace w @ [Transmit (error_envelope (PayloadSignatureWrong f))],
                uuid_next := Suc (uuid_next w)\<rparr>)"
  using assms
  by (simp add: check_signature_def missing_required_one in_missing not_in_unexpected
      split_missing strip_quoted remove_quotes_quoted fire_error_layer
      del: append_Cons append_Nil)

lemma check_signature_unexpected:
  assumes "channel_layer c"
      and "CHR '' '' \<notin> set fname" "CHR '' '' \<notin> set f" "CHR 0x27 \<notin> set f"
      and "\<not> py_in ''argument'' fname" "\<not> py_in ''argument'' f"
  shows "check_signature c (Inl (TypeError (unexpected_keyword fname f))) w
           = (Inr (None, True),
              w\<lparr>trace := trace w @ [Transmit (error_envelope (ActionSignatureWrong f))],
                uuid_next := Suc (uuid_next w)\<rparr>)"
  using assms
  by (simp add: check_signature_def unexpected_keyword_def in_unexpected not_in_missing
      split_unexpected strip_space_quoted remove_quotes_quoted fire_error_layer
      del: append_Cons append_Nil)

lemma check_signature_other:
  "(\<forall>e. x \<noteq> TypeError e) \<Longrightarrow> check_signature c (Inl x) w = (Inl x, w)"
  by (cases x) (simp_all add: check_signature_def)

lemma receive_json_error:
  assumes "get_systems c w = (Inr sys, w0)"
      and "map_of frame ''event'' = Some n"
      and "check_signature c (Event (AList.update ''name'' n (dict_pop ''event'' frame)) sys) w0
             = (Inr (d, True), w1)"
  shows "receive_json Event c frame w = (Inr (), w1)"
  using assms get_systems_layer [OF assms(1)] by (simp add: receive_json_def Let_def)

lemma send_broadcast_error:
  assumes "parse_payload c ct payload_type w = (Inr (p, True), w')"
  shows "send_broadcast c ct target t i b payload_type w = (Inr None, w')"
  using assms by (simp add: send_broadcast_def)

text \<open>
  C4. The validator does not do what the claim says on these inputs. The report of two
  missing fields reads \<open>arguments:\<close>, so the cut at \<open>argument: \<close> finds nothing and \<open>[1]\<close>
  raises IndexError: no envelope is sent. A \<open>TypeError\<close> whose message has neither word
  (a frame that brings its own \<open>system\<close> key, a constructor that fails on a value) is
  caught and dropped, with the error flag false: \<open>receive_json\<close> goes on to publish an
  event that is \<open>None\<close> and raises AttributeError, and \<open>send_broadcast\<close> goes on to call the
  hooks with no payload. An unexpected key that contains \<open>argument\<close> is reported under a
  wrong name, and one that contains the word \<open>missing\<close> and \<open>argument: \<close> is answered with
  two envelopes, one of each kind.
\<close>

theorem check_signature_misclassifies:
  "check_signature (chat_consumer 1) (deserialize ''__init__'' [''text'', ''room''] (PDict []))
       empty_world
     = (Inl IndexError, empty_world)
   \<and> check_signature (chat_consumer 1)
     (Inl (TypeError (''Event() got multiple values for keyword argument '' @ quoted ''system''))
        :: exn + event) empty_world
     = (Inr (None, False), empty_world)
   \<and> receive_json Event_init (SimpleConsumer_init (chat_consumer 1))
       [(''event'', PStr ''chat.send''), (''payload'', PDict [(''text'', PStr ''hi'')]),
        (''system'', PDict [])] empty_world
     = (Inl AttributeError,
        \<lparr>trace = [], uuid_next = 1, TargetResolver = [], class_consumer = []\<rparr>)
   \<and> hook_calls (trace (snd (send_broadcast (chat_consumer 1) chat_content for_all
        (Some quiet_hook) (Some quiet_hook) (Some quiet_hook)
        (Some (\<lambda>v. Inl (TypeError (''int() argument must be a string, a bytes-like object or a real number, not ''
                                      @ quoted ''dict''))))
        empty_world)))
     = [DoBefore, DoForInitiator, DoForTarget]
   \<and> transmitted (trace (snd (check_signature (chat_consumer 1)
        (deserialize ''__init__'' [''text''] (PDict [(''text'', PStr ''hi''), (''my_argument_x'', PInt 1)]))
        empty_world)))
     = [error_envelope (ActionSignatureWrong ''my_'')]
   \<and> transmitted (trace (snd (check_signature (chat_consumer 1)
        (deserialize ''__init__'' [''text'']
           (PDict [(''text'', PStr ''hi''), ('' missing argument: foo'', PInt 1)]))
        empty_world)))
     = [error_envelope (PayloadSignatureWrong ''foo''), error_envelope (ActionSignatureWrong '' missing'')]"
  by code_simp

text \<open>
  The sibling paths that work, on a connection with a channel layer. For the report of
  one missing required field \<open>f\<close> the validator sends exactly one PayloadSignatureWrong
  envelope carrying \<open>f\<close> and returns the error flag true; for the report of an
  unexpected keyword \<open>f\<close>, where neither \<open>f\<close> nor the function name contains \<open>argument\<close>, it
  sends exactly one ActionSignatureWrong envelope carrying \<open>f\<close> and returns the error
  flag true (names without a blank or a quote); a failure that is not a \<open>TypeError\<close>
  leaves the validator as it was raised, nothing sent; and when the flag is true
  \<open>receive_json\<close> and \<open>send_broadcast\<close> return at once with the world as the validator left
  it: nothing published, no hook called.
\<close>

lemma check_signature_classifies:
  assumes layer: "channel_layer c"
      and fn: "CHR '' '' \<notin> set fname" and f1: "CHR '' '' \<notin> set f" and f2: "CHR 0x27 \<notin> set f"
  shows "check_signature c (Inl (TypeError (missing_required fname [f]))) w
           = (Inr (None, True),
              w\<lparr>trace := trace w @ [Transmit (error_envelope (PayloadSignatureWrong f))],
                uuid_next := Suc (uuid_next w)\<rparr>)
       \<and> (\<not> py_in ''argument'' fname \<and> \<not> py_in ''argument'' f \<longrightarrow>
            check_signature c (Inl (TypeError (unexpected_keyword fname f))) w
              = (Inr (None, True),
                 w\<lparr>trace := trace w @ [Transmit (error_envelope (ActionSignatureWrong f))],
                   uuid_next := Suc (uuid_next w)\<rparr>))
       \<and> ((\<forall>e. x \<noteq> TypeError e) \<longrightarrow> check_signature c (Inl x) w = (Inl x, w))
       \<and> (get_systems c w = (Inr sys, w0) \<and> map_of frame ''event'' = Some n
            \<and> check_signature c (Event (AList.update ''name'' n (dict_pop ''event'' frame)) sys) w0
                 = (Inr (d, True), w1)
            \<longrightarrow> receive_json Event c frame w = (Inr (), w1))
       \<and> (parse_payload c ct payload_type w = (Inr (p, True), w2)
            \<longrightarrow> send_broadcast c ct target do_for_target do_for_initiator do_before payload_type w
                  = (Inr None, w2))"
proof (intro conjI impI)
  show "check_signature c (Inl (TypeError (missing_required fname [f]))) w
           = (Inr (None, True),
              w\<lparr>trace := trace w @ [Transmit (error_envelope (PayloadSignatureWrong f))],
                uuid_next := Suc (uuid_next w)\<rparr>)"
    by (rule check_signature_missing [OF layer fn f1 f2])
next
  assume "\<not> py_in ''argument'' fname \<and> \<not> py_in ''argument'' f"
  then show "check_signature c (Inl (TypeError (unexpected_keyword fname f))) w
              = (Inr (None, True),
                 w\<lparr>trace := trace w @ [Transmit (error_envelope (ActionSignatureWrong f))],
                   uuid_next := Suc (uuid_next w)\<rparr>)"
    by (simp add: check_signature_unexpected [OF layer fn f1 f2])
next
  assume "\<forall>e. x \<noteq> TypeError e"
  then show "check_signature c (Inl x) w = (Inl x, w)"
    by (rule check_signature_other)
next
  assume "get_systems c w = (Inr sys, w0) \<and> map_of frame ''event'' = Some n
            \<and> check_signature c (Event (AList.update ''name'' n (dict_pop ''event'' frame)) sys) w0
                 = (Inr (d, True), w1)"
  then show "receive_json Event c frame w = (Inr (), w1)"
    using receive_json_error by blast
next
  assume "parse_payload c ct payload_type w = (Inr (p, True), w2)"
  then show "send_broadcast c ct target do_for_target do_for_initiator do_before payload_type w
                  = (Inr None, w2)"
    by (rule send_broadcast_error)
qed

lemma check_signature_classifies_witness:
  "check_signature (chat_consumer 1) (deserialize ''__init__'' [''text''] (PDict [])) empty_world
     = (Inr (None, True),
        \<lparr>trace = [Transmit (error_envelope (PayloadSignatureWrong ''text''))], uuid_next = 1,
         TargetResolver = [], class_consumer = []\<rparr>)
   \<and> check_signature (chat_consumer 1)
       (deserialize ''__init__'' [''text''] (PDict [(''text'', PStr ''hi''), (''colour'', PStr ''red'')]))
       empty_world
     = (Inr (None, True),
        \<lparr>trace = [Transmit (error_envelope (ActionSignatureWrong ''colour''))], uuid_next = 1,
         TargetResolver = [], class_consumer = []\<rparr>)
   \<and> check_signature (chat_consumer 1) (Inl (KeyError ''text'') :: exn + payload) empty_world
     = (Inl (KeyError ''text''), empty_world)
   \<and> send_broadcast (chat_consumer 1) (chat_content\<lparr>cpayload := PDict []\<rparr>) for_all
       (Some quiet_hook) (Some quiet_hook) (Some quiet_hook)
       (Some (deserialize ''__init__'' [''text''])) empty_world
     = (Inr None,
        \<lparr>trace = [Transmit (error_envelope (PayloadSignatureWrong ''text''))], uuid_next = 1,
         TargetResolver = [], class_consumer = []\<rparr>)
   \<and> receive_json Event_init (chat_consumer 1) [(''event'', PStr ''chat.send'')] empty_world
     = (Inr (),
        \<lparr>trace = [Transmit (error_envelope (PayloadSignatureWrong ''payload''))], uuid_next = 2,
         TargetResolver = [], class_consumer = []\<rparr>)"
proof -
  let ?sys = "\<lparr>initiator_channel = ''chan'', initiator_user_id = Some 1, event_id = 0\<rparr>"
  let ?w0 = "\<lparr>trace = [], uuid_next = 1, TargetResolver = [], class_consumer = []\<rparr>"
  have layer: "channel_layer (chat_consumer 1)"
    by (simp add: channel_layer_def chat_consumer_def)
  have fn: "CHR '' '' \<notin> set ''__init__''" by simp
  have t1: "CHR '' '' \<notin> set ''text''" and t2: "CHR 0x27 \<notin> set ''text''" by simp_all
  have c1: "CHR '' '' \<notin> set ''colour''" and c2: "CHR 0x27 \<notin> set ''colour''" by simp_all
  have p1: "CHR '' '' \<notin> set ''payload''" and p2: "CHR 0x27 \<notin> set ''payload''" by simp_all
  have na: "\<not> py_in ''argument'' ''__init__'' \<and> \<not> py_in ''argument'' ''colour''" by simp
  note tx = check_signature_classifies [OF layer fn t1 t2]
  note cl = check_signature_classifies [OF layer fn c1 c2]
  note pl = check_signature_classifies [OF layer fn p1 p2]
  have m: "deserialize ''__init__'' [''text''] (PDict [])
             = Inl (TypeError (missing_required ''__init__'' [''text'']))"
    by (simp add: deserialize_def construct_def has_key_def)
  have u: "deserialize ''__init__'' [''text''] (PDict [(''text'', PStr ''hi''), (''colour'', PStr ''red'')])
             = Inl (TypeError (unexpected_keyword ''__init__'' ''colour''))"
    by (simp add: deserialize_def construct_def has_key_def)
  have a: "check_signature (chat_consumer 1) (deserialize ''__init__'' [''text''] (PDict [])) empty_world
     = (Inr (None, True),
        \<lparr>trace = [Transmit (error_envelope (PayloadSignatureWrong ''text''))], uuid_next = 1,
         TargetResolver = [], class_consumer = []\<rparr>)"
    unfolding m by (simp add: tx [THEN conjunct1] empty_world_def del: One_nat_def)
  have b: "check_signature (chat_consumer 1)
       (deserialize ''__init__'' [''text''] (PDict [(''text'', PStr ''hi''), (''colour'', PStr ''red'')]))
       empty_world
     = (Inr (None, True),
        \<lparr>trace = [Transmit (error_envelope (ActionSignatureWrong ''colour''))], uuid_next = 1,
         TargetResolver = [], class_consumer = []\<rparr>)"
    unfolding u
    by (simp add: cl [THEN conjunct2, THEN conjunct1, rule_format, OF na] empty_world_def
          del: One_nat_def)
  have c: "check_signature (chat_consumer 1) (Inl (KeyError ''text'') :: exn + payload) empty_world
     = (Inl (KeyError ''text''), empty_world)"
    by (rule tx [THEN conjunct2, THEN conjunct2, THEN conjunct1, rule_format]) simp
  have pp: "parse_payload (chat_consumer 1) (chat_content\<lparr>cpayload := PDict []\<rparr>)
              (Some (deserialize ''__init__'' [''text''])) empty_world
            = (Inr (None, True),
               \<lparr>trace = [Transmit (error_envelope (PayloadSignatureWrong ''text''))], uuid_next = 1,
                TargetResolver = [], class_consumer = []\<rparr>)"
    by (simp add: parse_payload_def chat_content_def a del: One_nat_def)
  have d: "send_broadcast (chat_consumer 1) (chat_content\<lparr>cpayload := PDict []\<rparr>) for_all
       (Some quiet_hook) (Some quiet_hook) (Some quiet_hook)
       (Some (deserialize ''__init__'' [''text''])) empty_world
     = (Inr None,
        \<lparr>trace = [Transmit (error_envelope (PayloadSignatureWrong ''text''))], uuid_next = 1,
         TargetResolver = [], class_consumer = []\<rparr>)"
    by (rule tx [THEN conjunct2, THEN conjunct2, THEN conjunct2, THEN conjunct2, rule_format,
          OF pp])
  have gs: "get_systems (chat_consumer 1) empty_world = (Inr ?sys, ?w0)"
    by (simp add: get_systems_def self_channel_name_def chat_consumer_def empty_world_def)
  have ev: "Event_init (AList.update ''name'' (PStr ''chat.send'')
              (dict_pop ''event'' [(''event'', PStr ''chat.send'')])) ?sys
            = Inl (TypeError (missing_required ''__init__'' [''payload'']))"
    by (simp add: Event_init_def construct_def has_key_def dict_pop_def)
  have cs: "check_signature (chat_consumer 1)
              (Event_init (AList.update ''name'' (PStr ''chat.send'')
                 (dict_pop ''event'' [(''event'', PStr ''chat.send'')])) ?sys) ?w0
            = (Inr (None, True),
               \<lparr>trace = [Transmit (error_envelope (PayloadSignatureWrong ''payload''))], uuid_next = 2,
                TargetResolver = [], class_consumer = []\<rparr>)"
    unfolding ev by (simp add: pl [THEN conjunct1] del: One_nat_def)
  have e: "receive_json Event_init (chat_consumer 1) [(''event'', PStr ''chat.send'')] empty_world
     = (Inr (),
        \<lparr>trace = [Transmit (error_envelope (PayloadSignatureWrong ''payload''))], uuid_next = 2,
         TargetResolver = [], class_consumer = []\<rparr>)"
  proof (rule pl [THEN conjunct2, THEN conjunct2, THEN conjunct2, THEN conjunct1, rule_format])
    have "map_of [(''event'', PStr ''chat.send'')] ''event'' = Some (PStr ''chat.send'')"
      by simp
    with gs cs
    show "get_systems (chat_consumer 1) empty_world = (Inr ?sys, ?w0)
        \<and> map_of [(''event'', PStr ''chat.send'')] ''event'' = Some (PStr ''chat.send'')
        \<and> check_signature (chat_consumer 1)
              (Event_init (AList.update ''name'' (PStr ''chat.send'')
                 (dict_pop ''event'' [(''event'', PStr ''chat.send'')])) ?sys) ?w0
            = (Inr (None, True),
               \<lparr>trace = [Transmit (error_envelope (PayloadSignatureWrong ''payload''))], uuid_next = 2,
                TargetResolver = [], class_consumer = []\<rparr>)"
      by blast
  qed
  from a b c d e show ?thesis by blast
qed

section \<open>Dispatch of inbound frames\<close>

lemma startswith_two: "startswith n ''__'' \<Longrightarrow> startswith n ''_''"
  by (cases n) auto

lemma visible_eventD:
  "visible_event attrs k \<Longrightarrow> \<exists>cn. map_of attrs k = Some (EventClass cn False)"
  by (auto simp: visible_event_def split: option.splits attr.splits)

lemma visible_event_update:
  "visible_event attrs k \<Longrightarrow> visible_event (AList.update k' (EventClass cn False) attrs) k"
  by (simp add: visible_event_def update_conv')

lemma visible_event_updated:
  "visible_event (AList.update k (EventClass cn False) attrs) k"
  by (simp add: visible_event_def update_conv')

lemma hide_events_loop_keeps:
  "visible_event attrs k \<Longrightarrow> visible_event (hide_events_loop es attrs) k"
proof (induction es arbitrary: attrs)
  case Nil
  then show ?case by simp
next
  case (Cons e es)
  then show ?case
    by (auto simp: visible_event_update split: option.splits attr.splits)
qed

lemma hide_events_loop_registers:
  "e \<in> set es \<Longrightarrow> visible_event attrs e \<Longrightarrow>
     visible_event (hide_events_loop es attrs) (camel_to_snake e)"
proof (induction es arbitrary: attrs)
  case Nil
  then show ?case by simp
next
  case (Cons x es)
  show ?case
  proof (cases "x = e")
    case True
    from Cons.prems(2) obtain cn where "map_of attrs e = Some (EventClass cn False)"
      by (auto simp: visible_event_def split: option.splits attr.splits)
    with True show ?thesis
      by (simp add: hide_events_loop_keeps visible_event_updated)
  next
    case False
    with Cons.prems(1) have mem: "e \<in> set es" by simp
    show ?thesis
      using Cons.IH [OF mem] Cons.prems(2)
      by (auto simp: visible_event_update split: option.splits attr.splits)
  qed
qed

lemma registered_handler_found:
  assumes "hn \<in> set (registered_handlers c)"
  shows "\<exists>cn. getattr (SimpleConsumer_init c) hn = Some (EventClass cn False)"
proof -
  from assms obtain n where n: "n \<in> set (map fst (attributes c))" "\<not> startswith n ''_''"
      "visible_event (attributes c) n" and hn: "hn = camel_to_snake n"
    by (auto simp: registered_handlers_def)
  from visible_eventD [OF n(3)]
  obtain cn where cn: "map_of (attributes c) n = Some (EventClass cn False)" by blast
  let ?names = "filter (\<lambda>a. \<not> startswith a ''_'' \<and> \<not> startswith a ''__'') (map fst (attributes c))"
  let ?classes = "filter (\<lambda>n. case getattr c n of Some (EventClass cn h) \<Rightarrow> True
                                  | Some (OtherClass cn) \<Rightarrow> True | _ \<Rightarrow> False) ?names"
  let ?events = "filter (\<lambda>n. case getattr c n of Some (EventClass cn h) \<Rightarrow> True | _ \<Rightarrow> False) ?classes"
  have "n \<in> set ?events"
    using n(1,2) cn startswith_two [of n] by (auto simp: getattr_def)
  then have "visible_event (hide_events_loop ?events (attributes c)) (camel_to_snake n)"
    using n(3) by (rule hide_events_loop_registers)
  moreover have "attributes (SimpleConsumer_init c) = hide_events_loop ?events (attributes c)"
    by (simp add: SimpleConsumer_init_def hide_events_def Let_def)
  ultimately have "visible_event (attributes (SimpleConsumer_init c)) hn"
    by (simp add: hn)
  then show ?thesis
    unfolding getattr_def by (rule visible_eventD)
qed

text \<open>
  C5. The code looks the handler up with \<open>getattr\<close> on the consumer, so a frame that names
  the hidden class \<open>Error\<close> by its class name finds a handler although \<open>hide_events\<close>
  registered none under that name: no ActionNotExist envelope is sent, the class gets
  the connection as its \<open>consumer\<close>, and the frame is published to the group.
\<close>

theorem hidden_event_accepted_by_class_name:
  "''Error'' \<notin> set (registered_handlers (chat_consumer 1))
   \<and> receive_json Event_init (SimpleConsumer_init (chat_consumer 1))
       [(''event'', PStr ''Error''), (''payload'', PDict [])] empty_world
     = (Inr (),
        \<lparr>trace = [GroupSend ''chat''
                    \<lparr>ctype = PStr ''Error'', cpayload = PDict [],
                     csystem = \<lparr>initiator_channel = ''chan'', initiator_user_id = Some 1,
                                 event_id = 0\<rparr>\<rparr>],
         uuid_next = 1, TargetResolver = [],
         class_consumer = [(''Error'', SimpleConsumer_init (chat_consumer 1))]\<rparr>)"
  by code_simp

text \<open>
  On a connection with a channel layer, a name that is no attribute of the consumer, or
  a falsy one, is answered with one ActionNotExist envelope, and nothing is published.
\<close>

lemma receive_json_unknown_name:
  assumes layer: "channel_name c = Some ch"
      and name: "map_of frame ''event'' = Some n"
      and valid: "Event (AList.update ''name'' n (dict_pop ''event'' frame))
                    \<lparr>initiator_channel = ch, initiator_user_id = user_id (scope_user c),
                     event_id = uuid_next w\<rparr> = Inr ev"
      and handler: "get_handler_name (to_channels ev) = Inr hn" "\<not> attr_truthy (getattr c hn)"
  shows "receive_json Event c frame w =
           (Inr (), w\<lparr>trace := trace w @ [Transmit (error_envelope ActionNotExist)],
                      uuid_next := Suc (Suc (uuid_next w))\<rparr>)"
  using assms
  by (simp add: receive_json_def Let_def check_signature_def fire_error_eq get_systems_def
      self_channel_name_def channel_layer_def)

lemma receive_json_unknown_name_witness:
  "receive_json Event_init (SimpleConsumer_init (chat_consumer 1))
     [(''event'', PStr ''error''), (''payload'', PDict [])] empty_world
   = (Inr (), \<lparr>trace = [Transmit (error_envelope ActionNotExist)], uuid_next = 2,
                TargetResolver = [], class_consumer = []\<rparr>)"
proof -
  let ?c = "SimpleConsumer_init (chat_consumer 1)"
  let ?frame = "[(''event'', PStr ''error''), (''payload'', PDict [])]"
  let ?sys = "\<lparr>initiator_channel = ''chan'', initiator_user_id = user_id (scope_user ?c),
               event_id = uuid_next empty_world\<rparr>"
  let ?ev = "\<lparr>ev_name = PStr ''error'', ev_system = ?sys, ev_payload = PDict []\<rparr>"
  have layer: "channel_name ?c = Some ''chan''"
    by (simp add: SimpleConsumer_init_def hide_events_def chat_consumer_def)
  have name: "map_of ?frame ''event'' = Some (PStr ''error'')"
    by simp
  have valid: "Event_init (AList.update ''name'' (PStr ''error'') (dict_pop ''event'' ?frame)) ?sys
                 = Inr ?ev"
    by (simp add: Event_init_def construct_def has_key_def dict_pop_def)
  have h1: "get_handler_name (to_channels ?ev) = Inr ''error''"
    by (simp add: get_handler_name_def to_channels_def)
  have h2: "\<not> attr_truthy (getattr ?c ''error'')"
    by code_simp
  from receive_json_unknown_name [where Event = Event_init, OF layer name valid h1 h2]
  show ?thesis by (simp add: empty_world_def)
qed

text \<open>
  C7, as stated, fails: on a consumer type with no broadcast group and no channel layer
  a valid frame for a registered handler is not accepted and nothing is printed; the
  call takes the branch of line 198 and raises there.
\<close>

theorem no_group_frame_not_accepted_without_layer:
  "''chat_send'' \<in> set (registered_handlers
                          ((chat_consumer 1)\<lparr>broadcast_group := None, channel_name := None\<rparr>))
   \<and> receive_json Event_init
       (SimpleConsumer_init ((chat_consumer 1)\<lparr>broadcast_group := None, channel_name := None\<rparr>))
       chat_frame empty_world
     = (Inl AttributeError, empty_world)"
  by code_simp

text \<open>
  C7, amended. On a connection with a channel layer whose type has no broadcast group,
  a frame whose envelope is built and whose handler name is one that \<open>hide_events\<close>
  registered for a visible event class is accepted: the call returns normally, nothing
  is sent to the sender and nothing is published; the notice is printed, and the
  handler's class has the connection written on it as its \<open>consumer\<close>.
\<close>

theorem no_group_frame_only_logged:
  assumes layer: "channel_name c = Some ch"
      and name: "map_of frame ''event'' = Some n"
      and valid: "Event (AList.update ''name'' n (dict_pop ''event'' frame))
                    \<lparr>initiator_channel = ch, initiator_user_id = user_id (scope_user c),
                     event_id = uuid_next w\<rparr> = Inr ev"
      and handler: "get_handler_name (to_channels ev) = Inr hn" "hn \<in> set (registered_handlers c)"
      and no_group: "broadcast_group c = None \<or> broadcast_group c = Some []"
  shows "\<exists>cn. getattr (SimpleConsumer_init c) hn = Some (EventClass cn False)
           \<and> receive_json Event (SimpleConsumer_init c) frame w =
               (Inr (), w\<lparr>trace := trace w @ [Print (''Broadcast group not specified for ''
                                                       @ class_name c @ '', broadcast not sent'')],
                          uuid_next := Suc (uuid_next w),
                          class_consumer :=
                            AList.update cn (SimpleConsumer_init c) (class_consumer w)\<rparr>)"
proof -
  let ?c = "SimpleConsumer_init c"
  from registered_handler_found [OF handler(2)]
  obtain cn where cn: "getattr ?c hn = Some (EventClass cn False)" by blast
  have same: "channel_name ?c = Some ch" "scope_user ?c = scope_user c"
      "broadcast_group ?c = broadcast_group c" "class_name ?c = class_name c"
    using layer by (simp_all add: SimpleConsumer_init_def hide_events_def Let_def)
  have "receive_json Event ?c frame w =
               (Inr (), w\<lparr>trace := trace w @ [Print (''Broadcast group not specified for ''
                                                       @ class_name c @ '', broadcast not sent'')],
                          uuid_next := Suc (uuid_next w),
                          class_consumer := AList.update cn ?c (class_consumer w)\<rparr>)"
    using name valid handler(1) no_group cn same
    by (auto simp: receive_json_def Let_def check_signature_def emit_def get_systems_def
        self_channel_name_def channel_layer_def)
  with cn show ?thesis by blast
qed

theorem no_group_frame_only_logged_witness:
  "receive_json Event_init (SimpleConsumer_init ((chat_consumer 1)\<lparr>broadcast_group := None\<rparr>))
     chat_frame empty_world
   = (Inr (), \<lparr>trace = [Print ''Broadcast group not specified for ChatConsumer, broadcast not sent''],
                uuid_next = 1, TargetResolver = [],
                class_consumer = [(''ChatSend'',
                   SimpleConsumer_init ((chat_consumer 1)\<lparr>broadcast_group := None\<rparr>))]\<rparr>)"
proof -
  let ?base = "(chat_consumer 1)\<lparr>broadcast_group := None\<rparr>"
  let ?c = "SimpleConsumer_init ?base"
  let ?sys = "\<lparr>initiator_channel = ''chan'', initiator_user_id = user_id (scope_user ?base),
               event_id = uuid_next empty_world\<rparr>"
  let ?ev = "\<lparr>ev_name = PStr ''chat.send'', ev_system = ?sys,
              ev_payload = PDict [(''text'', PStr ''hi'')]\<rparr>"
  have layer: "channel_name ?base = Some ''chan''"
    by (simp add: chat_consumer_def)
  have name: "map_of chat_frame ''event'' = Some (PStr ''chat.send'')"
    by (simp add: chat_frame_def)
  have valid: "Event_init (AList.update ''name'' (PStr ''chat.send'') (dict_pop ''event'' chat_frame))
                 ?sys = Inr ?ev"
    by (simp add: Event_init_def construct_def has_key_def dict_pop_def chat_frame_def)
  have h1: "get_handler_name (to_channels ?ev) = Inr ''chat_send''"
    by (simp add: get_handler_name_def to_channels_def)
  have h2: "''chat_send'' \<in> set (registered_handlers ?base)"
    by code_simp
  have ng: "broadcast_group ?base = None \<or> broadcast_group ?base = Some []"
    by simp
  have found: "getattr ?c ''chat_send'' = Some (EventClass ''ChatSend'' False)"
    by code_simp
  have cn: "class_name ?base = ''ChatConsumer''"
    by (simp add: chat_consumer_def)
  from no_group_frame_only_logged [where Event = Event_init, OF layer name valid h1 h2 ng] found
  show ?thesis by (auto simp: cn empty_world_def simp del: One_nat_def)
qed

section \<open>Direct construction of events\<close>



section \<open>Payload round trip\<close>

lemma construct_ok:
  assumes keys: "set (map fst m) = set shape"
  shows "construct fname shape m =
           Inr (map (\<lambda>f. (f, (case map_of m f of Some v \<Rightarrow> v | None \<Rightarrow> PNone))) shape)"
proof -
  have a: "filter (\<lambda>k. k \<notin> set shape) (map fst m) = []"
    using keys by (auto simp: filter_empty_conv)
  have b: "filter (\<lambda>f. \<not> has_key f m) shape = []"
    using keys by (auto simp: filter_empty_conv has_key_def map_of_eq_None_iff)
  show ?thesis by (simp add: construct_def a b)
qed

lemma map_of_bound:
  "map_of (map (\<lambda>f. (f, (case map_of m f of Some v \<Rightarrow> v | None \<Rightarrow> PNone))) shape) k =
     (if k \<in> set shape then Some (case map_of m k of Some v \<Rightarrow> v | None \<Rightarrow> PNone) else None)"
  by (induction shape) auto

lemma bound_in_order:
  "distinct (map fst m) \<Longrightarrow>
     map (\<lambda>f. (f, (case map_of m f of Some v \<Rightarrow> v | None \<Rightarrow> PNone))) (map fst m) = m"
proof (induction m)
  case Nil
  then show ?case by simp
next
  case (Cons a m)
  obtain k v where a: "a = (k, v)" by (cases a)
  from Cons.prems a have k: "k \<notin> fst ` set m" and d: "distinct (map fst m)" by auto
  have "map (\<lambda>f. (f, (case map_of ((k, v) # m) f of Some v \<Rightarrow> v | None \<Rightarrow> PNone))) (map fst m)
        = map (\<lambda>f. (f, (case map_of m f of Some v \<Rightarrow> v | None \<Rightarrow> PNone))) (map fst m)"
    using k by (intro map_cong) auto
  with Cons.IH [OF d] a show ?case by simp
qed

text \<open>
  C9. A mapping whose keys are the declared fields of a shape deserializes into a typed
  payload, and serializing that payload gives a mapping equal to the original (the same
  keys with the same values); when the keys come in declaration order the two are
  identical lists.
\<close>

theorem payload_roundtrip:
  assumes keys: "set (map fst m) = set shape"
  shows "\<exists>d. deserialize fname shape (PDict m) = Inr (Payload d)
           \<and> payload_serialize (Payload d) = PDict d
           \<and> map_of d = map_of m
           \<and> (distinct (map fst m) \<and> map fst m = shape \<longrightarrow> d = m)"
proof -
  let ?d = "map (\<lambda>f. (f, (case map_of m f of Some v \<Rightarrow> v | None \<Rightarrow> PNone))) shape"
  have des: "deserialize fname shape (PDict m) = Inr (Payload ?d)"
    by (simp add: deserialize_def construct_ok [OF keys])
  have "map_of ?d k = map_of m k" for k
  proof (cases "k \<in> set shape")
    case True
    with keys have "k \<in> fst ` set m" by auto
    then obtain v where "map_of m k = Some v"
      by (metis map_of_eq_None_iff not_Some_eq)
    with True show ?thesis by (simp add: map_of_bound)
  next
    case False
    with keys have "k \<notin> fst ` set m" by auto
    then have "map_of m k = None" by (simp add: map_of_eq_None_iff)
    with False show ?thesis by (simp add: map_of_bound)
  qed
  then have eq: "map_of ?d = map_of m" by (rule ext)
  have ord: "distinct (map fst m) \<and> map fst m = shape \<longrightarrow> ?d = m"
    using bound_in_order [of m] by auto
  from des eq ord show ?thesis by simp
qed

theorem payload_roundtrip_witness:
  "deserialize ''__init__'' [''text'', ''room'']
     (PDict [(''text'', PStr ''hi''), (''room'', PInt 3)])
     = Inr (Payload [(''text'', PStr ''hi''), (''room'', PInt 3)])
   \<and> payload_serialize (Payload [(''text'', PStr ''hi''), (''room'', PInt 3)])
     = PDict [(''text'', PStr ''hi''), (''room'', PInt 3)]"
proof -
  have keys: "set (map fst [(''text'', PStr ''hi''), (''room'', PInt 3)]) = set [''text'', ''room'']"
    by simp
  from payload_roundtrip [OF keys, of "''__init__''"]
  obtain d where des: "deserialize ''__init__'' [''text'', ''room'']
                         (PDict [(''text'', PStr ''hi''), (''room'', PInt 3)]) = Inr (Payload d)"
    and same: "d = [(''text'', PStr ''hi''), (''room'', PInt 3)]"
    by auto
  then show ?thesis by simp
qed

end
